theory Spec2Isabelle
  imports Main
begin

section \<open>JavaScript values used by index.js\<close>

text \<open>
  The request body of \<open>POST /download\<close> is the JSON object
  \<open>{ license, domain, file }\<close> of caller-supplied strings. A field that is absent
  reads as \<open>undefined\<close> (here \<open>None\<close>); a field that is present carries a string.
  Strings are lists of 8-bit characters.
\<close>

record body =
  body_license :: "string option"
  body_domain :: "string option"
  body_file :: "string option"

text \<open>
  The request as a handler sees it. \<open>req.body\<close> is the parsed body, or \<open>undefined\<close>
  (here \<open>None\<close>) when the body parser in front of the route parsed none. \<open>req_id\<close> tells
  the request object from every other one.
\<close>

record ctx =
  req_body :: "body option"
  req_id :: nat

text \<open>Reading a property of \<open>undefined\<close> throws a TypeError.\<close>

datatype js_error = TypeError

text \<open>JavaScript truthiness of such a field: \<open>undefined\<close> and \<open>""\<close> are falsy.\<close>

fun truthy :: "string option \<Rightarrow> bool" where
  "truthy None = False"
| "truthy (Some s) = (s \<noteq> [])"

subsection \<open>\<open>String.prototype.startsWith\<close> and \<open>String.prototype.includes\<close>\<close>

fun startsWith :: "string \<Rightarrow> string \<Rightarrow> bool" where
  "startsWith s [] = True"
| "startsWith [] (c # cs) = False"
| "startsWith (x # xs) (c # cs) = (x = c \<and> startsWith xs cs)"

text \<open>\<open>str_includes s t\<close> is the source's \<open>s.includes(t)\<close>: \<open>t\<close> occurs in \<open>s\<close> at some position.\<close>

fun str_includes :: "string \<Rightarrow> string \<Rightarrow> bool" where
  "str_includes [] t = (t = [])"
| "str_includes (x # xs) t = (startsWith (x # xs) t \<or> str_includes xs t)"

text \<open>
  The specification's wording, for comparison: \<open>a\<close> is a substring of \<open>d\<close> when
  \<open>d\<close> is some prefix, then \<open>a\<close>, then some suffix.
\<close>

definition is_substring_of :: "string \<Rightarrow> string \<Rightarrow> bool" where
  "is_substring_of a d \<longleftrightarrow> (\<exists>p s. d = p @ a @ s)"

section \<open>Regular expressions, as far as \<open>validateFileName\<close> needs them\<close>

datatype regex =
    Never
  | Empty
  | Lit char
  | Class "char \<Rightarrow> bool"
  | Seq regex regex
  | Alt regex regex
  | Star regex

definition Plus :: "regex \<Rightarrow> regex" where
  "Plus r = Seq r (Star r)"

fun nullable :: "regex \<Rightarrow> bool" where
  "nullable Never = False"
| "nullable Empty = True"
| "nullable (Lit c) = False"
| "nullable (Class P) = False"
| "nullable (Seq r s) = (nullable r \<and> nullable s)"
| "nullable (Alt r s) = (nullable r \<or> nullable s)"
| "nullable (Star r) = True"

fun deriv :: "char \<Rightarrow> regex \<Rightarrow> regex" where
  "deriv c Never = Never"
| "deriv c Empty = Never"
| "deriv c (Lit d) = (if c = d then Empty else Never)"
| "deriv c (Class P) = (if P c then Empty else Never)"
| "deriv c (Seq r s) =
     (if nullable r then Alt (Seq (deriv c r) s) (deriv c s) else Seq (deriv c r) s)"
| "deriv c (Alt r s) = Alt (deriv c r) (deriv c s)"
| "deriv c (Star r) = Seq (deriv c r) (Star r)"

text \<open>
  \<open>test_anchored r s\<close> is \<open>/^r$/.test(s)\<close>: without the \<open>m\<close> flag \<open>^\<close> and \<open>$\<close>
  match only at the two ends of the input, so the whole string has to match \<open>r\<close>.
\<close>

fun test_anchored :: "regex \<Rightarrow> string \<Rightarrow> bool" where
  "test_anchored r [] = nullable r"
| "test_anchored r (c # cs) = test_anchored (deriv c r) cs"

text \<open>The words a regular expression denotes.\<close>

inductive_set star :: "string set \<Rightarrow> string set" for A :: "string set" where
  star_nil: "[] \<in> star A"
| star_step: "u \<in> A \<Longrightarrow> v \<in> star A \<Longrightarrow> u @ v \<in> star A"

fun lang :: "regex \<Rightarrow> string set" where
  "lang Never = {}"
| "lang Empty = {[]}"
| "lang (Lit c) = {[c]}"
| "lang (Class P) = {[c] | c. P c}"
| "lang (Seq r s) = {u @ v | u v. u \<in> lang r \<and> v \<in> lang s}"
| "lang (Alt r s) = lang r \<union> lang s"
| "lang (Star r) = star (lang r)"

subsection \<open>The character classes of \<open>/^[\w\-\/]+\.zip$/\<close>\<close>

text \<open>\<open>\w\<close> without the \<open>u\<close> and \<open>i\<close> flags is \<open>[A-Za-z0-9_]\<close>.\<close>

definition word_char :: "char \<Rightarrow> bool" where
  "word_char c \<longleftrightarrow>
     (let n = (of_char c :: nat)
      in (65 \<le> n \<and> n \<le> 90) \<or> (97 \<le> n \<and> n \<le> 122) \<or> (48 \<le> n \<and> n \<le> 57) \<or> n = 95)"

definition file_char :: "char \<Rightarrow> bool" where
  "file_char c \<longleftrightarrow> word_char c \<or> c = CHR ''-'' \<or> c = CHR ''/''"

definition file_name_regex :: regex where
  "file_name_regex =
     Seq (Plus (Class file_char))
       (Seq (Lit CHR ''.'') (Seq (Lit CHR ''z'') (Seq (Lit CHR ''i'') (Lit CHR ''p''))))"

definition validateFileName :: "string \<Rightarrow> bool" where
  "validateFileName f = test_anchored file_name_regex f"

section \<open>Dates\<close>

text \<open>
  A time value is a number of milliseconds since 1970-01-01T00:00:00Z. A \<open>Date\<close> holds a
  time value of magnitude at most 8.64e15, or NaN (an invalid date), here \<open>None\<close>.
\<close>

definition valid_time :: "int \<Rightarrow> bool" where
  "valid_time t \<longleftrightarrow> - 8640000000000000 \<le> t \<and> t \<le> 8640000000000000"

definition msPerDay :: int where
  "msPerDay = 86400000"

text \<open>Days since the epoch of a proleptic Gregorian date, and back.\<close>

definition days_from_civil :: "int \<Rightarrow> int \<Rightarrow> int \<Rightarrow> int" where
  "days_from_civil y m d =
     (let y' = (if m \<le> 2 then y - 1 else y);
          era = y' div 400;
          yoe = y' - era * 400;
          doy = (153 * (if m > 2 then m - 3 else m + 9) + 2) div 5 + d - 1;
          doe = yoe * 365 + yoe div 4 - yoe div 100 + doy
      in era * 146097 + doe - 719468)"

definition civil_from_days :: "int \<Rightarrow> int \<times> int \<times> int" where
  "civil_from_days z0 =
     (let z = z0 + 719468;
          era = z div 146097;
          doe = z - era * 146097;
          yoe = (doe - doe div 1460 + doe div 36524 - doe div 146096) div 365;
          doy = doe - (365 * yoe + yoe div 4 - yoe div 100);
          mp = (5 * doy + 2) div 153;
          d = doy - (153 * mp + 2) div 5 + 1;
          m = (if mp < 10 then mp + 3 else mp - 9);
          y = yoe + era * 400
      in (if m \<le> 2 then y + 1 else y, m, d))"

definition leap_year :: "int \<Rightarrow> bool" where
  "leap_year y \<longleftrightarrow> y mod 4 = 0 \<and> (y mod 100 \<noteq> 0 \<or> y mod 400 = 0)"

definition days_in_month :: "int \<Rightarrow> int \<Rightarrow> int" where
  "days_in_month y m =
     (if m = 2 then (if leap_year y then 29 else 28)
      else if m = 4 \<or> m = 6 \<or> m = 9 \<or> m = 11 then 30 else 31)"

text \<open>Decimal digits: reading a run of digits, and writing a number at a fixed width.\<close>

definition is_digit :: "char \<Rightarrow> bool" where
  "is_digit c \<longleftrightarrow> 48 \<le> (of_char c :: nat) \<and> (of_char c :: nat) \<le> 57"

fun read_digits :: "int \<Rightarrow> string \<Rightarrow> int option" where
  "read_digits acc [] = Some acc"
| "read_digits acc (c # cs) =
     (if is_digit c then read_digits (acc * 10 + (of_char c - 48)) cs else None)"

fun pad :: "nat \<Rightarrow> nat \<Rightarrow> string" where
  "pad 0 n = []"
| "pad (Suc k) n = pad k (n div 10) @ [char_of (48 + n mod 10)]"

text \<open>
  \<open>date_only_form s\<close> is \<open>Some t\<close> when \<open>s\<close> is the ECMAScript date-only form
  \<open>YYYY-MM-DD\<close> of a calendar date, \<open>t\<close> being midnight UTC of that day, and \<open>None\<close> for
  every other string.
\<close>

definition date_only_form :: "string \<Rightarrow> int option" where
  "date_only_form s =
     (if length s = 10 \<and> s ! 4 = CHR ''-'' \<and> s ! 7 = CHR ''-'' then
        (case (read_digits 0 (take 4 s), read_digits 0 (take 2 (drop 5 s)),
               read_digits 0 (drop 8 s)) of
           (Some y, Some m, Some d) \<Rightarrow>
             (if 1 \<le> m \<and> m \<le> 12 \<and> 1 \<le> d \<and> d \<le> days_in_month y m
              then Some (days_from_civil y m d * msPerDay) else None)
         | _ \<Rightarrow> None)
      else None)"

text \<open>
  The time value of \<open>new Date(s)\<close>, \<open>None\<close> for NaN. A calendar date in the date-only
  form is midnight UTC of that day. What the engine makes of any other string (a
  date-time form, a day past the end of its month, a string it reads by rules of its
  own) is the parameter \<open>other\<close>: nothing is assumed about it. The \<open>expires\<close> strings
  of the source's table are calendar dates in the date-only form.
\<close>

definition Date_parse :: "(string \<Rightarrow> int option) \<Rightarrow> string \<Rightarrow> int option" where
  "Date_parse other s =
     (case date_only_form s of Some t \<Rightarrow> Some t | None \<Rightarrow> other s)"

text \<open>
  \<open>Date.prototype.toISOString\<close>: \<open>YYYY-MM-DDTHH:mm:ss.sssZ\<close>, with the expanded year
  \<open>\<plusminus>YYYYYY\<close> outside 0..9999; it throws a RangeError on an invalid date (\<open>None\<close>).
\<close>

definition iso_year :: "int \<Rightarrow> string" where
  "iso_year y =
     (if 0 \<le> y \<and> y \<le> 9999 then pad 4 (nat y)
      else if y < 0 then CHR ''-'' # pad 6 (nat (- y))
      else CHR ''+'' # pad 6 (nat y))"

definition toISOString :: "int \<Rightarrow> string option" where
  "toISOString t =
     (if \<not> valid_time t then None
      else
        (let day = t div msPerDay;
             ms = nat (t mod msPerDay);
             (y, m, d) = civil_from_days day
         in Some (iso_year y @ ''-'' @ pad 2 (nat m) @ ''-'' @ pad 2 (nat d) @ ''T''
                  @ pad 2 (ms div 3600000) @ '':'' @ pad 2 (ms div 60000 mod 60) @ '':''
                  @ pad 2 (ms div 1000 mod 60) @ ''.'' @ pad 3 (ms mod 1000) @ ''Z'')))"

section \<open>The license store\<close>

record license =
  active :: bool
  expires :: string
  domains :: "string list"
  files :: "string list"

text \<open>
  \<open>LICENSES\<close> is an object literal: its own properties are the two records, and every
  other property name is looked up in \<open>Object.prototype\<close>.
\<close>

definition LICENSES :: "string \<rightharpoonup> license" where
  "LICENSES = map_of
     [(''ABC-123-XYZ'',
         \<lparr>active = True, expires = ''2026-12-31'',
          domains = [''localhost'', ''127.0.0.1'', ''woozio.local'', ''demo.yourtheme.com''],
          files = [''package-install__woozio-main.zip'', ''theme-a/demo.zip'',
                   ''theme-b/demo.zip'']\<rparr>),
      (''TEST-999-KEY'',
         \<lparr>active = True, expires = ''2026-01-01'',
          domains = [''localhost''],
          files = [''package-install__woozio-main.zip'']\<rparr>)]"

text \<open>The property names of \<open>Object.prototype\<close>; each reads as a function or an object.\<close>

definition object_prototype_names :: "string list" where
  "object_prototype_names =
     [''constructor'', ''__defineGetter__'', ''__defineSetter__'', ''hasOwnProperty'',
      ''__lookupGetter__'', ''__lookupSetter__'', ''isPrototypeOf'',
      ''propertyIsEnumerable'', ''toString'', ''valueOf'', ''__proto__'',
      ''toLocaleString'']"

text \<open>
  The value of \<open>LICENSES[license]\<close>: a license record of the object's own, a member
  inherited from \<open>Object.prototype\<close>, or \<open>undefined\<close>.
\<close>

datatype property = Undefined | Own license | Inherited

definition get_property :: "(string \<rightharpoonup> license) \<Rightarrow> string \<Rightarrow> property" where
  "get_property table key =
     (case table key of
        Some lic \<Rightarrow> Own lic
      | None \<Rightarrow> if key \<in> set object_prototype_names then Inherited else Undefined)"

section \<open>The Validator\<close>

text \<open>
  \<open>isExpired\<close> compares \<open>new Date(dateStr) < new Date()\<close>: the parsed date against the
  clock. A comparison with NaN is false.
\<close>

definition isExpired :: "(string \<Rightarrow> int option) \<Rightarrow> int \<Rightarrow> string \<Rightarrow> bool" where
  "isExpired parseDate now dateStr =
     (case parseDate dateStr of None \<Rightarrow> False | Some t \<Rightarrow> t < now)"

datatype validation = Accepted | Rejected string

text \<open>
  \<open>validateLicense\<close>, with the table, the date parser and the clock as parameters. A
  member inherited from \<open>Object.prototype\<close> is truthy and its \<open>active\<close> is \<open>undefined\<close>.
\<close>

definition validateLicense ::
  "(string \<rightharpoonup> license) \<Rightarrow> (string \<Rightarrow> int option) \<Rightarrow> int \<Rightarrow> string \<Rightarrow> string \<Rightarrow> string
     \<Rightarrow> validation" where
  "validateLicense table parseDate now license domain file =
     (case get_property table license of
        Undefined \<Rightarrow> Rejected ''License not found''
      | Inherited \<Rightarrow> Rejected ''License inactive''
      | Own lic \<Rightarrow>
          if \<not> active lic then Rejected ''License inactive''
          else if isExpired parseDate now (expires lic) then Rejected ''License expired''
          else if \<not> list_ex (\<lambda>allowed. str_includes domain allowed) (domains lic)
            then Rejected ''Domain not allowed''
          else if file \<notin> set (files lic)
            then Rejected ''File not permitted for this license''
          else Accepted)"

section \<open>The URL Issuer\<close>

record sign_request =
  Bucket :: "string option"
  Key :: string
  expiresIn :: nat

text \<open>
  A key of the rate limiter's store: a string, or an object, which is a key by its
  identity.
\<close>

datatype rate_key = StringKey string | ObjectKey nat

text \<open>
  What the handlers run in: the license table, the engine's date parser, the clock as
  read in \<open>isExpired\<close>, as read by \<open>Date.now()\<close> when the response is built and as read
  by the limiter, the configured bucket, and the signing call of the object store,
  which returns the URL (\<open>Inr\<close>) or throws (\<open>Inl\<close>, with the cause).
\<close>

record env =
  table :: "string \<rightharpoonup> license"
  parseDate :: "string \<Rightarrow> int option"
  clock_validate :: int
  clock_respond :: int
  clock_limiter :: int
  R2_BUCKET :: "string option"
  getSignedUrl :: "sign_request \<Rightarrow> string + string"

definition generateSignedUrl :: "env \<Rightarrow> string \<Rightarrow> string + string" where
  "generateSignedUrl e fileKey =
     getSignedUrl e \<lparr>Bucket = R2_BUCKET e, Key = fileKey, expiresIn = 60 * 10\<rparr>"

section \<open>The request handler of \<open>POST /download\<close>\<close>

datatype payload =
    Failure string
  | Success (message: string) (data_url: string) (data_expires_in: nat)
      (data_expires_at: string) (data_file: string)

record response =
  status :: nat
  json :: payload

text \<open>
  What a run of the handler does besides answering: the log lines (level and message),
  and the calls to the file-name check, the Validator and the signer, in order.
\<close>

datatype level = Info | Warn | Error

datatype event =
    Logged level string
  | FileNameChecked string
  | Validated string string string
  | SignRequested sign_request

text \<open>
  \<open>handle_checked\<close> is the handler from its step 2 on, for a request whose three fields
  are present: the file-name check, the Validator, then the \<open>try\<close> block. Within the
  \<open>try\<close>, a signer that throws and a \<open>toISOString\<close> that throws (an invalid date) both
  end in the \<open>catch\<close>, which answers the generic 500. A response sent with \<open>res.json\<close>
  alone has status 200.
\<close>

definition handle_checked :: "env \<Rightarrow> string \<Rightarrow> string \<Rightarrow> string \<Rightarrow> response \<times> event list" where
  "handle_checked e license domain file =
     (if \<not> validateFileName file then
        (\<lparr>status = 400, json = Failure ''Invalid file name''\<rparr>,
         [FileNameChecked file, Logged Warn ''Invalid file name format''])
      else
        (case validateLicense (table e) (parseDate e) (clock_validate e) license domain file of
           Rejected err \<Rightarrow>
             (\<lparr>status = 403, json = Failure err\<rparr>,
              [FileNameChecked file, Validated license domain file,
               Logged Warn ''License validation failed''])
         | Accepted \<Rightarrow>
             (let called = [FileNameChecked file, Validated license domain file,
                            SignRequested \<lparr>Bucket = R2_BUCKET e, Key = file, expiresIn = 60 * 10\<rparr>];
                  failed = \<lparr>status = 500,
                     json = Failure ''Failed to generate download URL. Please try again later.''\<rparr>
              in case generateSignedUrl e file of
                   Inl cause \<Rightarrow> (failed, called @ [Logged Error ''Failed to generate signed URL''])
                 | Inr signedUrl \<Rightarrow>
                     (case toISOString (clock_respond e + 600 * 1000) of
                        None \<Rightarrow>
                          (failed, called @ [Logged Info ''Signed URL generated successfully'',
                                             Logged Error ''Failed to generate signed URL''])
                      | Some stamp \<Rightarrow>
                          (\<lparr>status = 200,
                            json = Success ''License and domain verified'' signedUrl 600 stamp file\<rparr>,
                           called @ [Logged Info ''Signed URL generated successfully''])))))"

text \<open>
  \<open>download\<close> is the whole handler, applied to \<open>req.body\<close>. Its first statement,
  \<open>const { license, domain, file } = req.body\<close>, stands before the log line and the
  presence check and outside the \<open>try\<close>: on an \<open>undefined\<close> body it throws a TypeError,
  and the handler ends there without a response (\<open>Inl\<close>). On a parsed body come the log
  line, step 1 (\<open>!license || !domain || !file\<close>) and the rest, and the handler answers
  (\<open>Inr\<close>). The log lines carry their level and message; their payload is left out.
\<close>

definition download :: "env \<Rightarrow> body option \<Rightarrow> (js_error + response) \<times> event list" where
  "download e parsed =
     (case parsed of
        None \<Rightarrow> (Inl TypeError, [])
      | Some b \<Rightarrow>
          (let missing =
                 (Inr \<lparr>status = 400, json = Failure ''Missing license, domain, or file''\<rparr>,
                  [Logged Info ''Download request received'',
                   Logged Warn ''Missing required fields''])
           in if \<not> truthy (body_license b) \<or> \<not> truthy (body_domain b) \<or>
                 \<not> truthy (body_file b)
              then missing
              else
                (case (body_license b, body_domain b, body_file b) of
                   (Some license, Some domain, Some file) \<Rightarrow>
                     (case handle_checked e license domain file of
                        (res, evs) \<Rightarrow>
                          (Inr res, Logged Info ''Download request received'' # evs))
                 | _ \<Rightarrow> missing)))"

section \<open>The rate limiter and the route\<close>

record rate_bucket =
  windowStart :: int
  hits :: nat

definition windowMs :: int where
  "windowMs = 15 * 60 * 1000"

definition max_requests :: nat where
  "max_requests = 30"

text \<open>
  \<open>keyGenerator\<close> of the source: \<open>req.body.license || ipKeyGenerator(req)\<close>. Reading
  \<open>license\<close> of an \<open>undefined\<close> body throws. \<open>ipKeyGenerator\<close> belongs to the package
  express-rate-limit, not to the source: what it returns for the request object it is
  called on here is a parameter, and nothing is assumed about it.
\<close>

definition keyGenerator :: "(ctx \<Rightarrow> rate_key) \<Rightarrow> ctx \<Rightarrow> js_error + rate_key" where
  "keyGenerator ipKeyGenerator c =
     (case req_body c of
        None \<Rightarrow> Inl TypeError
      | Some b \<Rightarrow>
          (if truthy (body_license b)
           then (case body_license b of
                   Some license \<Rightarrow> Inr (StringKey license)
                 | None \<Rightarrow> Inr (ipKeyGenerator c))
           else Inr (ipKeyGenerator c)))"

text \<open>
  Modelled from the spec: the counting of \<open>rateLimit\<close> (package express-rate-limit,
  not part of the source). On each request: if \<open>now - windowStart > windowDuration\<close>,
  reset to \<open>Counting(now, 1)\<close>, else increment \<open>count\<close>; if \<open>count > maxRequests\<close>, reject.
\<close>

definition count_hit :: "int \<Rightarrow> rate_bucket option \<Rightarrow> rate_bucket" where
  "count_hit now bucket =
     (case bucket of
        None \<Rightarrow> \<lparr>windowStart = now, hits = 1\<rparr>
      | Some b \<Rightarrow>
          if now - windowStart b > windowMs then \<lparr>windowStart = now, hits = 1\<rparr>
          else b\<lparr>hits := hits b + 1\<rparr>)"

text \<open>
  What a handler of a route does with a request: it responds, it passes the request on,
  or it ends in an error, which is left to the framework.
\<close>

datatype outcome = Responded response | Next | Threw js_error

type_synonym rate_store = "rate_key \<rightharpoonup> rate_bucket"

type_synonym middleware =
  "env \<Rightarrow> ctx \<Rightarrow> rate_store \<Rightarrow> (outcome \<times> event list) \<times> rate_store"

text \<open>
  The \<open>limiter\<close> of the source: the counting above with the source's options. A key
  generator that throws ends the limiter in that error, nothing counted.
\<close>

definition limiter :: "(ctx \<Rightarrow> rate_key) \<Rightarrow> middleware" where
  "limiter ipKeyGenerator e c store =
     (case keyGenerator ipKeyGenerator c of
        Inl err \<Rightarrow> ((Threw err, []), store)
      | Inr key \<Rightarrow>
          (let b = count_hit (clock_limiter e) (store key);
               store' = store(key \<mapsto> b)
           in if hits b > max_requests then
                ((Responded \<lparr>status = 429,
                             json = Failure ''Too many requests. Please try again later.''\<rparr>,
                  [Logged Warn ''Rate limit exceeded'']), store')
              else ((Next, []), store')))"

text \<open>The handler as a handler of the route: its answer, or its error.\<close>

definition answer_of :: "js_error + response \<Rightarrow> outcome" where
  "answer_of r = (case r of Inl err \<Rightarrow> Threw err | Inr res \<Rightarrow> Responded res)"

definition download_handler :: middleware where
  "download_handler e c store =
     (case download e (req_body c) of (r, evs) \<Rightarrow> ((answer_of r, evs), store))"

text \<open>
  A request runs through the handlers registered for its route until one responds or
  ends in an error.
\<close>

fun run_chain :: "middleware list \<Rightarrow> middleware" where
  "run_chain [] e c store = ((Next, []), store)"
| "run_chain (m # ms) e c store =
     (case m e c store of
        ((Responded res, evs), store') \<Rightarrow> ((Responded res, evs), store')
      | ((Threw err, evs), store') \<Rightarrow> ((Threw err, evs), store')
      | ((Next, evs), store') \<Rightarrow>
          (case run_chain ms e c store' of
             ((out, evs'), store'') \<Rightarrow> ((out, evs @ evs'), store'')))"

text \<open>
  The source registers the route as \<open>app.post('/download', async (req, res) => ...)\<close>:
  the handler alone. (\<open>cors\<close> and \<open>express.json\<close>, mounted with \<open>app.use\<close>, come before
  it; \<open>express.json\<close> produces the parsed body, if any.)
\<close>

definition post_download_route :: "middleware list" where
  "post_download_route = [download_handler]"

definition post_download :: middleware where
  "post_download = run_chain post_download_route"

text \<open>
  Modelled from the spec: the route as the specification's control flow has it, the Rate
  Limiter in front of the handler. The source defines \<open>limiter\<close> and registers no route
  of this shape; it is here for comparison with \<open>post_download\<close>.
\<close>

definition limited_download :: "(ctx \<Rightarrow> rate_key) \<Rightarrow> middleware" where
  "limited_download ipKeyGenerator = run_chain (limiter ipKeyGenerator # post_download_route)"

text \<open>The server answering a sequence of requests, the store carried from one to the next.\<close>

fun serve :: "middleware \<Rightarrow> (env \<times> ctx) list \<Rightarrow> rate_store \<Rightarrow> outcome list \<times> rate_store" where
  "serve m [] store = ([], store)"
| "serve m ((e, c) # rest) store =
     (case m e c store of
        ((out, evs), store') \<Rightarrow>
          (case serve m rest store' of (outs, store'') \<Rightarrow> (out # outs, store'')))"


section \<open>Reading a run of the handler\<close>

text \<open>The calls a run made, read off its events.\<close>

fun validator_calls :: "event list \<Rightarrow> (string \<times> string \<times> string) list" where
  "validator_calls [] = []"
| "validator_calls (Validated l d f # evs) = (l, d, f) # validator_calls evs"
| "validator_calls (ev # evs) = validator_calls evs"

fun file_name_checks :: "event list \<Rightarrow> string list" where
  "file_name_checks [] = []"
| "file_name_checks (FileNameChecked f # evs) = f # file_name_checks evs"
| "file_name_checks (ev # evs) = file_name_checks evs"

fun signer_calls :: "event list \<Rightarrow> sign_request list" where
  "signer_calls [] = []"
| "signer_calls (SignRequested r # evs) = r # signer_calls evs"
| "signer_calls (ev # evs) = signer_calls evs"

text \<open>
  The file-name grammar in the specification's words: one or more word characters,
  hyphens, underscores and forward slashes, then the suffix \<open>.zip\<close>.
\<close>

definition safe_file_name :: "string \<Rightarrow> bool" where
  "safe_file_name f \<longleftrightarrow>
     (\<exists>stem. stem \<noteq> [] \<and> f = stem @ ''.zip'' \<and>
        list_all (\<lambda>c. word_char c \<or> c = CHR ''-'' \<or> c = CHR ''_'' \<or> c = CHR ''/'') stem)"

subsection \<open>Sample environments\<close>

text \<open>
  The table of the source at 2025-11-03T07:30:00Z, with a signer that succeeds and one
  that fails. What the engine's date parser does outside the date-only form stays a
  parameter of the sample environment.
\<close>

definition sample_signer :: "sign_request \<Rightarrow> string + string" where
  "sample_signer r = Inr (''https://r2.example/'' @ Key r @ ''?X-Amz-Expires=600'')"

definition failing_signer :: "sign_request \<Rightarrow> string + string" where
  "failing_signer r = Inl ''getaddrinfo ENOTFOUND r2.example''"

definition sample_env :: "(string \<Rightarrow> int option) \<Rightarrow> env" where
  "sample_env other =
     \<lparr>table = LICENSES, parseDate = Date_parse other,
      clock_validate = 1762155000000, clock_respond = 1762155000250,
      clock_limiter = 1762154999990, R2_BUCKET = Some ''downloads'',
      getSignedUrl = sample_signer\<rparr>"

definition sample_body :: body where
  "sample_body =
     \<lparr>body_license = Some ''ABC-123-XYZ'', body_domain = Some ''demo.yourtheme.com'',
      body_file = Some ''theme-a/demo.zip''\<rparr>"

text \<open>
  A client probing with a license key that is not in the table: its \<open>i\<close>-th request,
  and its first \<open>n\<close> requests, all arriving in the same environment.
\<close>

definition probe_request :: "nat \<Rightarrow> ctx" where
  "probe_request i =
     \<lparr>req_body = Some \<lparr>body_license = Some ''NO-SUCH-KEY'', body_domain = Some ''localhost'',
                       body_file = Some ''a.zip''\<rparr>,
      req_id = i\<rparr>"

definition probes :: "env \<Rightarrow> nat \<Rightarrow> (env \<times> ctx) list" where
  "probes e n = map (\<lambda>i. (e, probe_request i)) [0..<n]"

section \<open>Theorems\<close>

subsection \<open>Strings and the file-name pattern\<close>

lemma startsWith_iff: "startsWith s t \<longleftrightarrow> (\<exists>r. s = t @ r)"
  by (induction s t rule: startsWith.induct) auto

lemma includes_iff: "str_includes d a \<longleftrightarrow> is_substring_of a d"
proof (induction d)
  case Nil
  show ?case by (auto simp: is_substring_of_def)
next
  case (Cons x xs)
  have "is_substring_of a (x # xs) \<longleftrightarrow> (\<exists>r. x # xs = a @ r) \<or> is_substring_of a xs"
  proof
    assume "is_substring_of a (x # xs)"
    then obtain p s where ps: "x # xs = p @ a @ s" by (auto simp: is_substring_of_def)
    show "(\<exists>r. x # xs = a @ r) \<or> is_substring_of a xs"
    proof (cases p)
      case Nil
      with ps show ?thesis by auto
    next
      case (Cons y ys)
      with ps have "xs = ys @ a @ s" by simp
      then show ?thesis by (auto simp: is_substring_of_def)
    qed
  next
    assume "(\<exists>r. x # xs = a @ r) \<or> is_substring_of a xs"
    then show "is_substring_of a (x # xs)"
    proof
      assume "\<exists>r. x # xs = a @ r"
      then obtain r where "x # xs = [] @ a @ r" by auto
      then show ?thesis unfolding is_substring_of_def by blast
    next
      assume "is_substring_of a xs"
      then obtain p s where "xs = p @ a @ s" by (auto simp: is_substring_of_def)
      then have "x # xs = (x # p) @ a @ s" by simp
      then show ?thesis unfolding is_substring_of_def by blast
    qed
  qed
  with Cons show ?case by (simp add: startsWith_iff)
qed

lemma nullable_iff: "nullable r \<longleftrightarrow> [] \<in> lang r"
  by (induction r) (auto intro: star.star_nil)

lemma star_cons_split:
  assumes "w \<in> star A" and "w = c # x"
  shows "\<exists>u v. x = u @ v \<and> c # u \<in> A \<and> v \<in> star A"
  using assms
proof (induction arbitrary: x rule: star.induct)
  case star_nil
  then show ?case by simp
next
  case (star_step u v)
  show ?case
  proof (cases u)
    case Nil
    with star_step show ?thesis by simp
  next
    case (Cons d us)
    with star_step.prems have "d = c" and "x = us @ v" by simp_all
    with Cons star_step.hyps show ?thesis by blast
  qed
qed

lemma deriv_lang: "w \<in> lang (deriv c r) \<longleftrightarrow> c # w \<in> lang r"
proof (induction r arbitrary: w)
  case (Seq r s)
  show ?case
  proof
    assume "w \<in> lang (deriv c (Seq r s))"
    then consider (l) u v where "w = u @ v" "u \<in> lang (deriv c r)" "v \<in> lang s"
      | (r) "nullable r" "w \<in> lang (deriv c s)"
      by (auto split: if_splits)
    then show "c # w \<in> lang (Seq r s)"
    proof cases
      case l
      then have "c # u \<in> lang r" using Seq.IH(1) by simp
      with l have "c # w = (c # u) @ v \<and> c # u \<in> lang r \<and> v \<in> lang s" by simp
      then show ?thesis unfolding lang.simps by blast
    next
      case r
      then have "[] \<in> lang r" "c # w \<in> lang s" using Seq.IH(2) by (simp_all add: nullable_iff)
      then have "c # w = [] @ (c # w) \<and> [] \<in> lang r \<and> c # w \<in> lang s" by simp
      then show ?thesis unfolding lang.simps by blast
    qed
  next
    assume "c # w \<in> lang (Seq r s)"
    then obtain u v where uv: "c # w = u @ v" "u \<in> lang r" "v \<in> lang s" by auto
    show "w \<in> lang (deriv c (Seq r s))"
    proof (cases u)
      case Nil
      with uv have "nullable r" "w \<in> lang (deriv c s)" using Seq.IH(2) by (simp_all add: nullable_iff)
      then show ?thesis by simp
    next
      case (Cons d us)
      with uv have "w = us @ v" "us \<in> lang (deriv c r)" using Seq.IH(1) by simp_all
      with uv(3) show ?thesis by auto
    qed
  qed
next
  case (Star r)
  show ?case
  proof
    assume "w \<in> lang (deriv c (Star r))"
    then obtain u v where uv: "w = u @ v" "u \<in> lang (deriv c r)" "v \<in> star (lang r)" by auto
    then have "c # u \<in> lang r" using Star.IH by simp
    from this uv(3) have "(c # u) @ v \<in> star (lang r)" by (rule star.star_step)
    with uv(1) show "c # w \<in> lang (Star r)" by simp
  next
    assume "c # w \<in> lang (Star r)"
    then have "c # w \<in> star (lang r)" by simp
    from star_cons_split[OF this refl]
    obtain u v where "w = u @ v" "c # u \<in> lang r" "v \<in> star (lang r)" by blast
    then show "w \<in> lang (deriv c (Star r))" using Star.IH by auto
  qed
qed auto

lemma test_anchored_iff: "test_anchored r s \<longleftrightarrow> s \<in> lang r"
  by (induction s arbitrary: r) (simp_all add: nullable_iff deriv_lang)

lemma star_class: "w \<in> star (lang (Class P)) \<longleftrightarrow> (\<forall>c \<in> set w. P c)"
proof
  assume "w \<in> star (lang (Class P))"
  then show "\<forall>c \<in> set w. P c" by (induction rule: star.induct) auto
next
  assume "\<forall>c \<in> set w. P c"
  then show "w \<in> star (lang (Class P))"
  proof (induction w)
    case Nil
    show ?case by (rule star.star_nil)
  next
    case (Cons a w)
    then have "[a] \<in> lang (Class P)" "w \<in> star (lang (Class P))" by simp_all
    then have "[a] @ w \<in> star (lang (Class P))" by (rule star.star_step)
    then show ?case by simp
  qed
qed

lemma lang_file_name_regex:
  "f \<in> lang file_name_regex \<longleftrightarrow>
     (\<exists>b. b \<noteq> [] \<and> (\<forall>c \<in> set b. file_char c) \<and> f = b @ ''.zip'')"
proof
  assume "f \<in> lang file_name_regex"
  then obtain u v where uv: "u \<in> lang (Plus (Class file_char))" "f = u @ ''.zip''"
    by (auto simp: file_name_regex_def)
  from uv(1) obtain c w where "u = c # w" "file_char c" "w \<in> star (lang (Class file_char))"
    by (auto simp: Plus_def)
  then have "u \<noteq> [] \<and> (\<forall>c \<in> set u. file_char c)" using star_class[of w file_char] by simp
  with uv(2) show "\<exists>b. b \<noteq> [] \<and> (\<forall>c \<in> set b. file_char c) \<and> f = b @ ''.zip''" by blast
next
  assume "\<exists>b. b \<noteq> [] \<and> (\<forall>c \<in> set b. file_char c) \<and> f = b @ ''.zip''"
  then obtain b where b: "b \<noteq> []" "\<forall>c \<in> set b. file_char c" "f = b @ ''.zip''" by blast
  then obtain c w where cw: "b = c # w" by (cases b) auto
  with b have "[c] \<in> lang (Class file_char)" "w \<in> star (lang (Class file_char))"
    using star_class[of w file_char] by simp_all
  then have "[c] @ w \<in> lang (Plus (Class file_char))" unfolding Plus_def lang.simps by blast
  with cw have "b \<in> lang (Plus (Class file_char))" by simp
  moreover have "''.zip'' \<in> lang (Seq (Lit CHR ''.'') (Seq (Lit CHR ''z'') (Seq (Lit CHR ''i'') (Lit CHR ''p''))))"
    by simp
  ultimately show "f \<in> lang file_name_regex"
    unfolding file_name_regex_def b(3) lang.simps(5) by blast
qed

lemma validateFileName_iff:
  "validateFileName f \<longleftrightarrow>
     (\<exists>b. b \<noteq> [] \<and> (\<forall>c \<in> set b. file_char c) \<and> f = b @ ''.zip'')"
  by (simp add: validateFileName_def test_anchored_iff lang_file_name_regex)

lemma validateFileName_safe: "validateFileName f \<longleftrightarrow> safe_file_name f"
proof -
  have "word_char CHR ''_''" by (simp add: word_char_def)
  then have "\<And>c. file_char c \<longleftrightarrow> (word_char c \<or> c = CHR ''-'' \<or> c = CHR ''_'' \<or> c = CHR ''/'')"
    by (auto simp: file_char_def)
  then show ?thesis
    unfolding validateFileName_iff safe_file_name_def list_all_iff by auto
qed

lemma word_char_not_dot: "\<not> file_char CHR ''.''"
  by (simp add: file_char_def word_char_def)

lemma accepted_name_one_dot:
  assumes "validateFileName f"
  shows "\<exists>stem. f = stem @ ''.zip'' \<and> CHR ''.'' \<notin> set stem"
proof -
  from assms obtain b where b: "\<forall>c \<in> set b. file_char c" "f = b @ ''.zip''"
    unfolding validateFileName_iff by blast
  from b(1) word_char_not_dot have "CHR ''.'' \<notin> set b" by blast
  with b(2) show ?thesis by blast
qed

lemma traversal_not_accepted:
  assumes "is_substring_of ''..'' f"
  shows "\<not> validateFileName f"
proof
  assume "validateFileName f"
  then obtain stem where st: "f = stem @ ''.zip''" "CHR ''.'' \<notin> set stem"
    using accepted_name_one_dot by blast
  from st(2) have "filter (\<lambda>c. c = CHR ''.'') stem = []"
    by (induction stem) auto
  with st(1) have one: "length (filter (\<lambda>c. c = CHR ''.'') f) = 1" by simp
  from assms obtain p s where "f = p @ ''..'' @ s" by (auto simp: is_substring_of_def)
  then have "length (filter (\<lambda>c. c = CHR ''.'') f) \<ge> 2" by simp
  with one show False by simp
qed

lemma download_missing:
  "\<not> truthy (body_license b) \<or> \<not> truthy (body_domain b) \<or> \<not> truthy (body_file b) \<Longrightarrow>
   download e (Some b) =
     (Inr \<lparr>status = 400, json = Failure ''Missing license, domain, or file''\<rparr>,
      [Logged Info ''Download request received'', Logged Warn ''Missing required fields''])"
  by (simp add: download_def)

lemma download_present:
  assumes "body_license b = Some l" "body_domain b = Some d" "body_file b = Some f"
    and "l \<noteq> []" "d \<noteq> []" "f \<noteq> []"
  shows "download e (Some b) =
     (Inr (fst (handle_checked e l d f)),
      Logged Info ''Download request received'' # snd (handle_checked e l d f))"
  using assms by (simp add: download_def split: prod.splits)

lemma handle_checked_invalid:
  "\<not> validateFileName f \<Longrightarrow>
   handle_checked e l d f =
     (\<lparr>status = 400, json = Failure ''Invalid file name''\<rparr>,
      [FileNameChecked f, Logged Warn ''Invalid file name format''])"
  by (simp add: handle_checked_def)

subsection \<open>The checks of the handler before the Validator\<close>

text \<open>
  Claim C3. Take a request whose three fields are all present (truthy). If the file
  string is not made of one or more word characters, hyphens, underscores and forward
  slashes followed by \<open>.zip\<close>, the response is 400 with error \<open>Invalid file name\<close>
  and neither the Validator nor the signer is called; a string holding the
  path-traversal sequence \<open>..\<close> is such a string; the pattern of the source accepts
  exactly the strings of that grammar; and an accepted string has no \<open>.\<close> but the one
  of its final \<open>.zip\<close>.
\<close>

theorem invalid_file_name_rejected:
  assumes "truthy (body_license b)" and "truthy (body_domain b)"
    and "body_file b = Some f" and "f \<noteq> []"
  shows "(\<not> safe_file_name f \<longrightarrow>
            fst (download e (Some b)) =
              Inr \<lparr>status = 400, json = Failure ''Invalid file name''\<rparr> \<and>
            validator_calls (snd (download e (Some b))) = [] \<and>
            signer_calls (snd (download e (Some b))) = [])
       \<and> (is_substring_of ''..'' f \<longrightarrow> \<not> safe_file_name f)
       \<and> (validateFileName f = safe_file_name f)
       \<and> (safe_file_name f \<longrightarrow> (\<exists>stem. f = stem @ ''.zip'' \<and> CHR ''.'' \<notin> set stem))"
proof -
  from assms(1) obtain l where l: "body_license b = Some l" "l \<noteq> []"
    by (cases "body_license b") auto
  from assms(2) obtain d where d: "body_domain b = Some d" "d \<noteq> []"
    by (cases "body_domain b") auto
  have run: "download e (Some b) =
     (Inr (fst (handle_checked e l d f)),
      Logged Info ''Download request received'' # snd (handle_checked e l d f))"
    using download_present[OF l(1) d(1) assms(3) l(2) d(2) assms(4)] .
  have "\<not> safe_file_name f \<longrightarrow>
            fst (download e (Some b)) =
              Inr \<lparr>status = 400, json = Failure ''Invalid file name''\<rparr> \<and>
            validator_calls (snd (download e (Some b))) = [] \<and>
            signer_calls (snd (download e (Some b))) = []"
    by (simp add: run validateFileName_safe[symmetric] handle_checked_invalid)
  moreover have "is_substring_of ''..'' f \<longrightarrow> \<not> safe_file_name f"
    using traversal_not_accepted validateFileName_safe by blast
  moreover have "safe_file_name f \<longrightarrow> (\<exists>stem. f = stem @ ''.zip'' \<and> CHR ''.'' \<notin> set stem)"
    using accepted_name_one_dot validateFileName_safe by blast
  ultimately show ?thesis using validateFileName_safe by blast
qed

text \<open>
  The request for \<open>../../etc/passwd\<close> under a valid license and domain, in every sample
  environment.
\<close>

theorem invalid_file_name_rejected_witness:
  "\<forall>other.
     truthy (body_license (sample_body\<lparr>body_file := Some ''../../etc/passwd''\<rparr>))
   \<and> truthy (body_domain (sample_body\<lparr>body_file := Some ''../../etc/passwd''\<rparr>))
   \<and> is_substring_of ''..'' ''../../etc/passwd''
   \<and> \<not> safe_file_name ''../../etc/passwd''
   \<and> fst (download (sample_env other)
             (Some (sample_body\<lparr>body_file := Some ''../../etc/passwd''\<rparr>)))
       = Inr \<lparr>status = 400, json = Failure ''Invalid file name''\<rparr>
   \<and> validator_calls (snd (download (sample_env other)
             (Some (sample_body\<lparr>body_file := Some ''../../etc/passwd''\<rparr>)))) = []"
proof
  fix other
  let ?b = "sample_body\<lparr>body_file := Some ''../../etc/passwd''\<rparr>"
  have h1: "truthy (body_license ?b)" and h2: "truthy (body_domain ?b)"
    and h3: "body_file ?b = Some ''../../etc/passwd''" and h4: "''../../etc/passwd'' \<noteq> []"
    by (simp_all add: sample_body_def)
  have sub: "is_substring_of ''..'' ''../../etc/passwd''"
    unfolding includes_iff[symmetric] by simp
  from invalid_file_name_rejected[OF h1 h2 h3 h4, of "sample_env other"] sub h1 h2
  show "truthy (body_license ?b) \<and> truthy (body_domain ?b)
   \<and> is_substring_of ''..'' ''../../etc/passwd''
   \<and> \<not> safe_file_name ''../../etc/passwd''
   \<and> fst (download (sample_env other) (Some ?b))
       = Inr \<lparr>status = 400, json = Failure ''Invalid file name''\<rparr>
   \<and> validator_calls (snd (download (sample_env other) (Some ?b))) = []"
    by blast
qed

text \<open>
  A request whose body was parsed and lacks any of \<open>license\<close>, \<open>domain\<close>, \<open>file\<close>: the
  response is 400 with error \<open>Missing license, domain, or file\<close>, and the run calls
  neither the file-name check nor the Validator (nor the signer).
\<close>

lemma parsed_body_missing_field_rejected:
  assumes "body_license b = None \<or> body_domain b = None \<or> body_file b = None"
  shows "fst (download e (Some b)) =
           Inr \<lparr>status = 400, json = Failure ''Missing license, domain, or file''\<rparr>
       \<and> file_name_checks (snd (download e (Some b))) = []
       \<and> validator_calls (snd (download e (Some b))) = []
       \<and> signer_calls (snd (download e (Some b))) = []"
proof -
  from assms have "\<not> truthy (body_license b) \<or> \<not> truthy (body_domain b) \<or> \<not> truthy (body_file b)"
    by auto
  from download_missing[OF this] show ?thesis by simp
qed

text \<open>
  Claim C9 says that every request in which any of \<open>license\<close>, \<open>domain\<close>, \<open>file\<close> is
  missing gets 400 with error \<open>Missing license, domain, or file\<close>. A request whose body
  was not parsed has none of the three, and the handler reads them off \<open>req.body\<close> before
  its presence check and outside its \<open>try\<close>: in every environment it ends in a TypeError
  with no response sent and no line logged, so no 400 is given.
\<close>

theorem unparsed_body_throws:
  "download e None = (Inl TypeError, [])
   \<and> fst (download e None)
       \<noteq> Inr \<lparr>status = 400, json = Failure ''Missing license, domain, or file''\<rparr>"
  by (simp add: download_def)

text \<open>The same in the sample environments, and through the route of the source.\<close>

theorem unparsed_body_throws_witness:
  "\<forall>other.
     fst (download (sample_env other) None) = Inl TypeError
   \<and> fst (fst (post_download (sample_env other) \<lparr>req_body = None, req_id = 0\<rparr> Map.empty))
       = Threw TypeError"
proof
  fix other
  from unparsed_body_throws[of "sample_env other"]
  show "fst (download (sample_env other) None) = Inl TypeError
   \<and> fst (fst (post_download (sample_env other) \<lparr>req_body = None, req_id = 0\<rparr> Map.empty))
       = Threw TypeError"
    by (simp add: post_download_def post_download_route_def download_handler_def
        answer_of_def)
qed

text \<open>
  Claim C10. The presence check is by truthiness: a request with an empty string for
  \<open>license\<close>, \<open>domain\<close> or \<open>file\<close> gets 400 \<open>Missing license, domain, or file\<close>, the
  Validator (and so the license table) is not reached, and the whole run, response and
  events, is that of the same request with the field absent.
\<close>

theorem empty_string_is_missing:
  assumes "body_license b = Some [] \<or> body_domain b = Some [] \<or> body_file b = Some []"
  shows "fst (download e (Some b)) =
           Inr \<lparr>status = 400, json = Failure ''Missing license, domain, or file''\<rparr>
       \<and> file_name_checks (snd (download e (Some b))) = []
       \<and> validator_calls (snd (download e (Some b))) = []
       \<and> download e (Some (b\<lparr>body_license := Some []\<rparr>))
           = download e (Some (b\<lparr>body_license := None\<rparr>))
       \<and> download e (Some (b\<lparr>body_domain := Some []\<rparr>))
           = download e (Some (b\<lparr>body_domain := None\<rparr>))
       \<and> download e (Some (b\<lparr>body_file := Some []\<rparr>))
           = download e (Some (b\<lparr>body_file := None\<rparr>))"
proof -
  from assms have "\<not> truthy (body_license b) \<or> \<not> truthy (body_domain b) \<or> \<not> truthy (body_file b)"
    by auto
  from download_missing[OF this]
  have "fst (download e (Some b)) =
           Inr \<lparr>status = 400, json = Failure ''Missing license, domain, or file''\<rparr>
       \<and> file_name_checks (snd (download e (Some b))) = []
       \<and> validator_calls (snd (download e (Some b))) = []" by simp
  moreover have "download e (Some (b\<lparr>body_license := Some []\<rparr>))
           = download e (Some (b\<lparr>body_license := None\<rparr>))"
    by (simp add: download_missing)
  moreover have "download e (Some (b\<lparr>body_domain := Some []\<rparr>))
           = download e (Some (b\<lparr>body_domain := None\<rparr>))"
    by (simp add: download_missing)
  moreover have "download e (Some (b\<lparr>body_file := Some []\<rparr>))
           = download e (Some (b\<lparr>body_file := None\<rparr>))"
    by (simp add: download_missing)
  ultimately show ?thesis by blast
qed

text \<open>The sample request with the license key \<open>""\<close>.\<close>

theorem empty_string_is_missing_witness:
  "\<forall>other.
     body_license (sample_body\<lparr>body_license := Some ''''\<rparr>) = Some ''''
   \<and> fst (download (sample_env other) (Some (sample_body\<lparr>body_license := Some ''''\<rparr>)))
       = Inr \<lparr>status = 400, json = Failure ''Missing license, domain, or file''\<rparr>
   \<and> validator_calls (snd (download (sample_env other)
         (Some (sample_body\<lparr>body_license := Some ''''\<rparr>)))) = []"
proof
  fix other
  let ?b = "sample_body\<lparr>body_license := Some ''''\<rparr>"
  have h: "body_license ?b = Some ''''" by simp
  from empty_string_is_missing[OF disjI1[OF h], of "sample_env other"] h
  show "body_license ?b = Some ''''
   \<and> fst (download (sample_env other) (Some ?b))
       = Inr \<lparr>status = 400, json = Failure ''Missing license, domain, or file''\<rparr>
   \<and> validator_calls (snd (download (sample_env other) (Some ?b))) = []"
    by blast
qed

subsection \<open>The Validator\<close>

lemma get_property_own: "tbl key = Some lic \<Longrightarrow> get_property tbl key = Own lic"
  by (simp add: get_property_def)

lemma validate_not_found:
  "get_property tbl license = Undefined \<Longrightarrow>
   validateLicense tbl parse now license domain file = Rejected ''License not found''"
  by (simp add: validateLicense_def)

lemma validate_inactive:
  "get_property tbl license = Inherited \<or>
     (\<exists>lic. get_property tbl license = Own lic \<and> \<not> active lic) \<Longrightarrow>
   validateLicense tbl parse now license domain file = Rejected ''License inactive''"
  by (auto simp: validateLicense_def)

lemma validate_expired:
  "get_property tbl license = Own lic \<Longrightarrow> active lic \<Longrightarrow>
   isExpired parse now (expires lic) \<Longrightarrow>
   validateLicense tbl parse now license domain file = Rejected ''License expired''"
  by (simp add: validateLicense_def)

lemma validate_domain:
  "get_property tbl license = Own lic \<Longrightarrow> active lic \<Longrightarrow>
   \<not> isExpired parse now (expires lic) \<Longrightarrow>
   \<not> (\<exists>allowed \<in> set (domains lic). str_includes domain allowed) \<Longrightarrow>
   validateLicense tbl parse now license domain file = Rejected ''Domain not allowed''"
  by (simp add: validateLicense_def list_ex_iff)

lemma validate_file:
  "get_property tbl license = Own lic \<Longrightarrow> active lic \<Longrightarrow>
   \<not> isExpired parse now (expires lic) \<Longrightarrow>
   \<exists>allowed \<in> set (domains lic). str_includes domain allowed \<Longrightarrow>
   file \<notin> set (files lic) \<Longrightarrow>
   validateLicense tbl parse now license domain file =
     Rejected ''File not permitted for this license''"
  by (simp add: validateLicense_def list_ex_iff)

lemma validate_accepted:
  "get_property tbl license = Own lic \<Longrightarrow> active lic \<Longrightarrow>
   \<not> isExpired parse now (expires lic) \<Longrightarrow>
   \<exists>allowed \<in> set (domains lic). str_includes domain allowed \<Longrightarrow>
   file \<in> set (files lic) \<Longrightarrow>
   validateLicense tbl parse now license domain file = Accepted"
  by (simp add: validateLicense_def list_ex_iff)

lemma handle_checked_rejected:
  "validateFileName file \<Longrightarrow>
   validateLicense (table e) (parseDate e) (clock_validate e) license domain file = Rejected err \<Longrightarrow>
   handle_checked e license domain file =
     (\<lparr>status = 403, json = Failure err\<rparr>,
      [FileNameChecked file, Validated license domain file,
       Logged Warn ''License validation failed''])"
  by (simp add: handle_checked_def)


text \<open>
  Claim C4. For every triple the Validator's answer is that of the first failing check,
  in the order not-found, inactive, expired, domain-not-allowed, file-not-permitted,
  and \<open>Accepted\<close> when none fails. Each line below fixes the answer from the checks up
  to the failing one alone: the inputs of the later checks (the clock and the parser
  after a failed lookup or flag, the domain after a failed expiry check, the file after
  a failed domain check) are arbitrary, so a later check has no say once an earlier one
  has failed. The handler answers a rejection with 403 and the Validator's reason
  string unchanged, after one Validator call and no signer call.
\<close>

theorem validator_checks_in_order:
  "(get_property (table e) license = Undefined \<longrightarrow>
      validateLicense (table e) (parseDate e) (clock_validate e) license domain file
        = Rejected ''License not found'')
 \<and> (get_property (table e) license = Inherited \<or>
      (\<exists>lic. get_property (table e) license = Own lic \<and> \<not> active lic) \<longrightarrow>
      validateLicense (table e) (parseDate e) (clock_validate e) license domain file
        = Rejected ''License inactive'')
 \<and> (\<forall>lic. get_property (table e) license = Own lic \<and> active lic \<and>
        isExpired (parseDate e) (clock_validate e) (expires lic) \<longrightarrow>
      validateLicense (table e) (parseDate e) (clock_validate e) license domain file
        = Rejected ''License expired'')
 \<and> (\<forall>lic. get_property (table e) license = Own lic \<and> active lic \<and>
        \<not> isExpired (parseDate e) (clock_validate e) (expires lic) \<and>
        \<not> (\<exists>allowed \<in> set (domains lic). str_includes domain allowed) \<longrightarrow>
      validateLicense (table e) (parseDate e) (clock_validate e) license domain file
        = Rejected ''Domain not allowed'')
 \<and> (\<forall>lic. get_property (table e) license = Own lic \<and> active lic \<and>
        \<not> isExpired (parseDate e) (clock_validate e) (expires lic) \<and>
        (\<exists>allowed \<in> set (domains lic). str_includes domain allowed) \<and>
        file \<notin> set (files lic) \<longrightarrow>
      validateLicense (table e) (parseDate e) (clock_validate e) license domain file
        = Rejected ''File not permitted for this license'')
 \<and> (\<forall>lic. get_property (table e) license = Own lic \<and> active lic \<and>
        \<not> isExpired (parseDate e) (clock_validate e) (expires lic) \<and>
        (\<exists>allowed \<in> set (domains lic). str_includes domain allowed) \<and>
        file \<in> set (files lic) \<longrightarrow>
      validateLicense (table e) (parseDate e) (clock_validate e) license domain file = Accepted)
 \<and> (\<forall>b err. body_license b = Some license \<and> body_domain b = Some domain \<and>
        body_file b = Some file \<and> license \<noteq> [] \<and> domain \<noteq> [] \<and> validateFileName file \<and>
        validateLicense (table e) (parseDate e) (clock_validate e) license domain file
          = Rejected err \<longrightarrow>
      fst (download e (Some b)) = Inr \<lparr>status = 403, json = Failure err\<rparr> \<and>
      validator_calls (snd (download e (Some b))) = [(license, domain, file)] \<and>
      signer_calls (snd (download e (Some b))) = [])"
proof -
  let ?V = "validateLicense (table e) (parseDate e) (clock_validate e) license domain file"
  let ?P = "get_property (table e) license"
  have c1: "?P = Undefined \<longrightarrow> ?V = Rejected ''License not found''"
    by (simp add: validate_not_found)
  have c2: "?P = Inherited \<or> (\<exists>lic. ?P = Own lic \<and> \<not> active lic) \<longrightarrow>
      ?V = Rejected ''License inactive''"
    using validate_inactive[of "table e" license] by blast
  have c3: "\<forall>lic. ?P = Own lic \<and> active lic \<and>
        isExpired (parseDate e) (clock_validate e) (expires lic) \<longrightarrow>
      ?V = Rejected ''License expired''"
    by (simp add: validate_expired)
  have c4: "\<forall>lic. ?P = Own lic \<and> active lic \<and>
        \<not> isExpired (parseDate e) (clock_validate e) (expires lic) \<and>
        \<not> (\<exists>allowed \<in> set (domains lic). str_includes domain allowed) \<longrightarrow>
      ?V = Rejected ''Domain not allowed''"
    by (simp add: validate_domain)
  have c5: "\<forall>lic. ?P = Own lic \<and> active lic \<and>
        \<not> isExpired (parseDate e) (clock_validate e) (expires lic) \<and>
        (\<exists>allowed \<in> set (domains lic). str_includes domain allowed) \<and>
        file \<notin> set (files lic) \<longrightarrow>
      ?V = Rejected ''File not permitted for this license''"
    by (simp add: validate_file)
  have c6: "\<forall>lic. ?P = Own lic \<and> active lic \<and>
        \<not> isExpired (parseDate e) (clock_validate e) (expires lic) \<and>
        (\<exists>allowed \<in> set (domains lic). str_includes domain allowed) \<and>
        file \<in> set (files lic) \<longrightarrow> ?V = Accepted"
    by (simp add: validate_accepted)
  have c7: "\<forall>b err. body_license b = Some license \<and> body_domain b = Some domain \<and>
        body_file b = Some file \<and> license \<noteq> [] \<and> domain \<noteq> [] \<and> validateFileName file \<and>
        ?V = Rejected err \<longrightarrow>
      fst (download e (Some b)) = Inr \<lparr>status = 403, json = Failure err\<rparr> \<and>
      validator_calls (snd (download e (Some b))) = [(license, domain, file)] \<and>
      signer_calls (snd (download e (Some b))) = []"
  proof (intro allI impI)
    fix b :: body and err
    assume a: "body_license b = Some license \<and> body_domain b = Some domain \<and>
        body_file b = Some file \<and> license \<noteq> [] \<and> domain \<noteq> [] \<and> validateFileName file \<and>
        ?V = Rejected err"
    then have ne: "file \<noteq> []" by (auto simp: validateFileName_iff)
    from a have run: "download e (Some b) = (Inr (fst (handle_checked e license domain file)),
        Logged Info ''Download request received'' # snd (handle_checked e license domain file))"
      using download_present[of b license domain "file" e] ne by blast
    from a have "handle_checked e license domain file =
       (\<lparr>status = 403, json = Failure err\<rparr>,
        [FileNameChecked file, Validated license domain file,
         Logged Warn ''License validation failed''])"
      using handle_checked_rejected[of "file" e license domain err] by blast
    with run show "fst (download e (Some b)) = Inr \<lparr>status = 403, json = Failure err\<rparr> \<and>
      validator_calls (snd (download e (Some b))) = [(license, domain, file)] \<and>
      signer_calls (snd (download e (Some b))) = []" by simp
  qed
  show ?thesis
    by (intro conjI) (rule c1, rule c2, rule c3, rule c4, rule c5, rule c6, rule c7)
qed


lemma sample_lookup:
  "get_property (table (sample_env other)) ''ABC-123-XYZ'' =
     Own \<lparr>active = True, expires = ''2026-12-31'',
          domains = [''localhost'', ''127.0.0.1'', ''woozio.local'', ''demo.yourtheme.com''],
          files = [''package-install__woozio-main.zip'', ''theme-a/demo.zip'',
                   ''theme-b/demo.zip'']\<rparr>"
  by (simp add: sample_env_def LICENSES_def get_property_def)

lemma sample_parse:
  "Date_parse other ''2026-12-31'' = Some 1798675200000"
  "Date_parse other ''2026-01-01'' = Some 1767225600000"
proof -
  have "date_only_form ''2026-12-31'' = Some 1798675200000" by code_simp
  then show "Date_parse other ''2026-12-31'' = Some 1798675200000"
    by (simp add: Date_parse_def)
  have "date_only_form ''2026-01-01'' = Some 1767225600000" by code_simp
  then show "Date_parse other ''2026-01-01'' = Some 1767225600000"
    by (simp add: Date_parse_def)
qed

lemma sample_not_expired:
  "\<not> isExpired (parseDate (sample_env other)) (clock_validate (sample_env other)) ''2026-12-31''"
  by (simp add: isExpired_def sample_env_def sample_parse)

lemma sample_file_ok: "validateFileName ''theme-a/demo.zip''"
  by code_simp

text \<open>
  The stored key \<open>ABC-123-XYZ\<close> from the domain \<open>example.org\<close>: the first three checks
  pass and the fourth fails.
\<close>

theorem validator_checks_in_order_witness:
  "\<forall>other.
     validateLicense (table (sample_env other)) (parseDate (sample_env other))
        (clock_validate (sample_env other))
        ''ABC-123-XYZ'' ''example.org'' ''theme-a/demo.zip'' = Rejected ''Domain not allowed''
   \<and> fst (download (sample_env other) (Some (sample_body\<lparr>body_domain := Some ''example.org''\<rparr>)))
       = Inr \<lparr>status = 403, json = Failure ''Domain not allowed''\<rparr>
   \<and> validateLicense (table (sample_env other)) (parseDate (sample_env other))
        (clock_validate (sample_env other))
        ''ABC-123-XYZ'' ''demo.yourtheme.com'' ''theme-a/demo.zip'' = Accepted"
proof
  fix other
  let ?e = "sample_env other"
  let ?lic = "\<lparr>active = True, expires = ''2026-12-31'',
          domains = [''localhost'', ''127.0.0.1'', ''woozio.local'', ''demo.yourtheme.com''],
          files = [''package-install__woozio-main.zip'', ''theme-a/demo.zip'',
                   ''theme-b/demo.zip'']\<rparr>"
  let ?b = "sample_body\<lparr>body_domain := Some ''example.org''\<rparr>"
  have dom: "\<not> (\<exists>allowed \<in> set (domains ?lic). str_includes ''example.org'' allowed)"
    by simp
  have dom': "\<exists>allowed \<in> set (domains ?lic). str_includes ''demo.yourtheme.com'' allowed"
    by simp
  have fl: "''theme-a/demo.zip'' \<in> set (files ?lic)" by simp
  have act: "active ?lic" by simp
  have nx: "\<not> isExpired (parseDate ?e) (clock_validate ?e) (expires ?lic)"
    using sample_not_expired[of other] by simp
  have b: "body_license ?b = Some ''ABC-123-XYZ''" "body_domain ?b = Some ''example.org''"
    "body_file ?b = Some ''theme-a/demo.zip''" "''ABC-123-XYZ'' \<noteq> []" "''example.org'' \<noteq> []"
    by (simp_all add: sample_body_def)
  note t1 = validator_checks_in_order[of ?e "''ABC-123-XYZ''" "''example.org''"
      "''theme-a/demo.zip''"]
  note t2 = validator_checks_in_order[of ?e "''ABC-123-XYZ''" "''demo.yourtheme.com''"
      "''theme-a/demo.zip''"]
  from t1 sample_lookup[of other] act nx dom
  have r: "validateLicense (table ?e) (parseDate ?e) (clock_validate ?e)
      ''ABC-123-XYZ'' ''example.org'' ''theme-a/demo.zip'' = Rejected ''Domain not allowed''"
    by blast
  from t1 r b sample_file_ok
  have h: "fst (download ?e (Some ?b)) = Inr \<lparr>status = 403, json = Failure ''Domain not allowed''\<rparr>"
    by blast
  from t2 sample_lookup[of other] act nx dom' fl
  have a: "validateLicense (table ?e) (parseDate ?e) (clock_validate ?e)
      ''ABC-123-XYZ'' ''demo.yourtheme.com'' ''theme-a/demo.zip'' = Accepted"
    by blast
  from r h a show "validateLicense (table ?e) (parseDate ?e) (clock_validate ?e)
        ''ABC-123-XYZ'' ''example.org'' ''theme-a/demo.zip'' = Rejected ''Domain not allowed''
   \<and> fst (download ?e (Some ?b)) = Inr \<lparr>status = 403, json = Failure ''Domain not allowed''\<rparr>
   \<and> validateLicense (table ?e) (parseDate ?e) (clock_validate ?e)
        ''ABC-123-XYZ'' ''demo.yourtheme.com'' ''theme-a/demo.zip'' = Accepted"
    by blast
qed

text \<open>
  Claim C2. For a request that reaches the domain check (a stored, active, unexpired
  record), the Validator answers \<open>Domain not allowed\<close> exactly when no entry of the
  record's \<open>domains\<close> is a substring of the caller's domain string; when some entry is,
  the domain is accepted and the answer is the file check's. The allowed entry is
  looked for inside the request domain, not the other way around.
\<close>

theorem domain_accepted_iff_contains_allowed:
  assumes "tbl license = Some lic" and "active lic"
    and "\<not> isExpired parse now (expires lic)"
  shows "(validateLicense tbl parse now license domain file = Rejected ''Domain not allowed''
            \<longleftrightarrow> \<not> (\<exists>allowed \<in> set (domains lic). is_substring_of allowed domain))
       \<and> ((\<exists>allowed \<in> set (domains lic). is_substring_of allowed domain) \<longrightarrow>
            validateLicense tbl parse now license domain file =
              (if file \<in> set (files lic) then Accepted
               else Rejected ''File not permitted for this license''))"
  using assms
  by (auto simp: validateLicense_def get_property_def list_ex_iff includes_iff)

text \<open>
  A domain that contains \<open>localhost\<close> passes; the domain \<open>local\<close>, which is contained
  in \<open>localhost\<close>, does not.
\<close>

theorem domain_accepted_iff_contains_allowed_witness:
  "\<forall>other.
     LICENSES ''TEST-999-KEY'' = Some \<lparr>active = True, expires = ''2026-01-01'',
          domains = [''localhost''], files = [''package-install__woozio-main.zip'']\<rparr>
   \<and> \<not> isExpired (Date_parse other) 1762155000000 ''2026-01-01''
   \<and> is_substring_of ''localhost'' ''evil-localhost.attacker.com''
   \<and> validateLicense LICENSES (Date_parse other) 1762155000000 ''TEST-999-KEY''
        ''evil-localhost.attacker.com'' ''package-install__woozio-main.zip'' = Accepted
   \<and> \<not> is_substring_of ''localhost'' ''local''
   \<and> validateLicense LICENSES (Date_parse other) 1762155000000 ''TEST-999-KEY''
        ''local'' ''package-install__woozio-main.zip'' = Rejected ''Domain not allowed''"
proof
  fix other
  let ?lic = "\<lparr>active = True, expires = ''2026-01-01'',
          domains = [''localhost''], files = [''package-install__woozio-main.zip'']\<rparr>"
  let ?parse = "Date_parse other"
  have own: "LICENSES ''TEST-999-KEY'' = Some ?lic" by (simp add: LICENSES_def)
  have act: "active ?lic" by simp
  have nx: "\<not> isExpired ?parse 1762155000000 ''2026-01-01''"
    by (simp add: isExpired_def sample_parse)
  then have nx': "\<not> isExpired ?parse 1762155000000 (expires ?lic)" by simp
  have s1: "is_substring_of ''localhost'' ''evil-localhost.attacker.com''"
    unfolding includes_iff[symmetric] by simp
  have s2: "\<not> is_substring_of ''localhost'' ''local''"
    unfolding includes_iff[symmetric] by simp
  from domain_accepted_iff_contains_allowed[of LICENSES "''TEST-999-KEY''" ?lic ?parse
      1762155000000 "''evil-localhost.attacker.com''" "''package-install__woozio-main.zip''"]
    own act nx' s1
  have a: "validateLicense LICENSES ?parse 1762155000000 ''TEST-999-KEY''
        ''evil-localhost.attacker.com'' ''package-install__woozio-main.zip'' = Accepted"
    by simp
  from domain_accepted_iff_contains_allowed[of LICENSES "''TEST-999-KEY''" ?lic ?parse
      1762155000000 "''local''" "''package-install__woozio-main.zip''"]
    own act nx' s2
  have r: "validateLicense LICENSES ?parse 1762155000000 ''TEST-999-KEY''
        ''local'' ''package-install__woozio-main.zip'' = Rejected ''Domain not allowed''"
    by simp
  from own nx s1 a s2 r
  show "LICENSES ''TEST-999-KEY'' = Some ?lic
   \<and> \<not> isExpired ?parse 1762155000000 ''2026-01-01''
   \<and> is_substring_of ''localhost'' ''evil-localhost.attacker.com''
   \<and> validateLicense LICENSES ?parse 1762155000000 ''TEST-999-KEY''
        ''evil-localhost.attacker.com'' ''package-install__woozio-main.zip'' = Accepted
   \<and> \<not> is_substring_of ''localhost'' ''local''
   \<and> validateLicense LICENSES ?parse 1762155000000 ''TEST-999-KEY''
        ''local'' ''package-install__woozio-main.zip'' = Rejected ''Domain not allowed''"
    by blast
qed

text \<open>
  Claim C6. For a stored, active record the Validator answers \<open>License expired\<close> exactly
  when the record's \<open>expires\<close> string parses to a time and the clock is strictly after
  it; otherwise the record passes the expiry check and the answer is that of the domain
  and file checks.
\<close>

theorem expired_iff_now_after_expiry:
  assumes "tbl license = Some lic" and "active lic"
  shows "(validateLicense tbl parse now license domain file = Rejected ''License expired''
            \<longleftrightarrow> (\<exists>t. parse (expires lic) = Some t \<and> now > t))
       \<and> (\<forall>t. parse (expires lic) = Some t \<longrightarrow>
            (validateLicense tbl parse now license domain file = Rejected ''License expired''
               \<longleftrightarrow> now > t))
       \<and> (\<not> (\<exists>t. parse (expires lic) = Some t \<and> now > t) \<longrightarrow>
            validateLicense tbl parse now license domain file =
              (if \<not> (\<exists>allowed \<in> set (domains lic). is_substring_of allowed domain)
                 then Rejected ''Domain not allowed''
               else if file \<notin> set (files lic) then Rejected ''File not permitted for this license''
               else Accepted))"
  using assms
  by (auto simp: validateLicense_def get_property_def isExpired_def list_ex_iff includes_iff
      split: option.splits)

text \<open>
  The record expiring \<open>2026-01-01\<close>: expired one millisecond after midnight UTC of that
  day, not expired at midnight itself.
\<close>

theorem expired_iff_now_after_expiry_witness:
  "\<forall>other.
     LICENSES ''TEST-999-KEY'' = Some \<lparr>active = True, expires = ''2026-01-01'',
          domains = [''localhost''], files = [''package-install__woozio-main.zip'']\<rparr>
   \<and> Date_parse other ''2026-01-01'' = Some 1767225600000
   \<and> validateLicense LICENSES (Date_parse other) 1767225600001 ''TEST-999-KEY''
        ''localhost'' ''package-install__woozio-main.zip'' = Rejected ''License expired''
   \<and> validateLicense LICENSES (Date_parse other) 1767225600000 ''TEST-999-KEY''
        ''localhost'' ''package-install__woozio-main.zip'' \<noteq> Rejected ''License expired''"
proof
  fix other
  let ?lic = "\<lparr>active = True, expires = ''2026-01-01'',
          domains = [''localhost''], files = [''package-install__woozio-main.zip'']\<rparr>"
  let ?parse = "Date_parse other"
  have own: "LICENSES ''TEST-999-KEY'' = Some ?lic" by (simp add: LICENSES_def)
  have act: "active ?lic" by simp
  have p: "?parse ''2026-01-01'' = Some 1767225600000" by (rule sample_parse)
  then have p': "?parse (expires ?lic) = Some 1767225600000" by simp
  from expired_iff_now_after_expiry[of LICENSES "''TEST-999-KEY''" ?lic ?parse
      1767225600001 "''localhost''" "''package-install__woozio-main.zip''"] own act p'
  have x: "validateLicense LICENSES ?parse 1767225600001 ''TEST-999-KEY''
        ''localhost'' ''package-install__woozio-main.zip'' = Rejected ''License expired''"
    by simp
  from expired_iff_now_after_expiry[of LICENSES "''TEST-999-KEY''" ?lic ?parse
      1767225600000 "''localhost''" "''package-install__woozio-main.zip''"] own act p'
  have y: "validateLicense LICENSES ?parse 1767225600000 ''TEST-999-KEY''
        ''localhost'' ''package-install__woozio-main.zip'' \<noteq> Rejected ''License expired''"
    by simp
  from own p x y
  show "LICENSES ''TEST-999-KEY'' = Some ?lic
   \<and> ?parse ''2026-01-01'' = Some 1767225600000
   \<and> validateLicense LICENSES ?parse 1767225600001 ''TEST-999-KEY''
        ''localhost'' ''package-install__woozio-main.zip'' = Rejected ''License expired''
   \<and> validateLicense LICENSES ?parse 1767225600000 ''TEST-999-KEY''
        ''localhost'' ''package-install__woozio-main.zip'' \<noteq> Rejected ''License expired''"
    by blast
qed

subsection \<open>Issuing the URL\<close>

lemma handle_checked_accepted:
  assumes "validateFileName file"
    and "validateLicense (table e) (parseDate e) (clock_validate e) license domain file = Accepted"
  shows "handle_checked e license domain file =
     (case getSignedUrl e \<lparr>Bucket = R2_BUCKET e, Key = file, expiresIn = 600\<rparr> of
        Inl cause \<Rightarrow>
          (\<lparr>status = 500,
            json = Failure ''Failed to generate download URL. Please try again later.''\<rparr>,
           [FileNameChecked file, Validated license domain file,
            SignRequested \<lparr>Bucket = R2_BUCKET e, Key = file, expiresIn = 600\<rparr>,
            Logged Error ''Failed to generate signed URL''])
      | Inr signedUrl \<Rightarrow>
          (case toISOString (clock_respond e + 600 * 1000) of
             None \<Rightarrow>
               (\<lparr>status = 500,
                 json = Failure ''Failed to generate download URL. Please try again later.''\<rparr>,
                [FileNameChecked file, Validated license domain file,
                 SignRequested \<lparr>Bucket = R2_BUCKET e, Key = file, expiresIn = 600\<rparr>,
                 Logged Info ''Signed URL generated successfully'',
                 Logged Error ''Failed to generate signed URL''])
           | Some stamp \<Rightarrow>
               (\<lparr>status = 200,
                 json = Success ''License and domain verified'' signedUrl 600 stamp file\<rparr>,
                [FileNameChecked file, Validated license domain file,
                 SignRequested \<lparr>Bucket = R2_BUCKET e, Key = file, expiresIn = 600\<rparr>,
                 Logged Info ''Signed URL generated successfully''])))"
  using assms
  by (simp add: handle_checked_def generateSignedUrl_def Let_def split: sum.splits option.splits)

lemma toISOString_valid: "valid_time t \<Longrightarrow> \<exists>stamp. toISOString t = Some stamp"
  by (simp add: toISOString_def Let_def split: prod.splits)

text \<open>
  Claim C7. For a fully valid triple (fields present, file name safe, Validator
  \<open>Accepted\<close>) the handler calls the signer once, for the requested file as the key and
  a lifetime of exactly 600 seconds; and when the signer returns a URL, the response is
  200 with \<open>success: true\<close>, the message, and \<open>data\<close> holding that URL, \<open>expires_in\<close>
  600, \<open>expires_at\<close> the ISO-8601 rendering of the clock at issuance plus 600 seconds,
  and \<open>file\<close> the requested file string unchanged.
\<close>

theorem valid_request_issues_url:
  assumes "body_license b = Some license" and "body_domain b = Some domain"
    and "body_file b = Some file" and "license \<noteq> []" and "domain \<noteq> []"
    and "validateFileName file"
    and "validateLicense (table e) (parseDate e) (clock_validate e) license domain file = Accepted"
  shows "signer_calls (snd (download e (Some b))) =
           [\<lparr>Bucket = R2_BUCKET e, Key = file, expiresIn = 600\<rparr>]
       \<and> (\<forall>signedUrl.
            getSignedUrl e \<lparr>Bucket = R2_BUCKET e, Key = file, expiresIn = 600\<rparr> = Inr signedUrl \<and>
            valid_time (clock_respond e + 600 * 1000) \<longrightarrow>
            (\<exists>stamp. toISOString (clock_respond e + 600 * 1000) = Some stamp \<and>
               fst (download e (Some b)) =
                 Inr \<lparr>status = 200,
                  json = Success ''License and domain verified'' signedUrl 600 stamp file\<rparr>))"
proof -
  from assms(6) have ne: "file \<noteq> []" by (auto simp: validateFileName_iff)
  note run = download_present[OF assms(1,2,3,4,5) ne, of e]
  note hc = handle_checked_accepted[OF assms(6,7)]
  have calls: "signer_calls (snd (download e (Some b))) =
           [\<lparr>Bucket = R2_BUCKET e, Key = file, expiresIn = 600\<rparr>]"
    by (simp add: run hc Let_def split: sum.splits option.splits)
  have ok: "\<exists>stamp. toISOString (clock_respond e + 600 * 1000) = Some stamp \<and>
               fst (download e (Some b)) =
                 Inr \<lparr>status = 200,
                  json = Success ''License and domain verified'' signedUrl 600 stamp file\<rparr>"
    if "getSignedUrl e \<lparr>Bucket = R2_BUCKET e, Key = file, expiresIn = 600\<rparr> = Inr signedUrl"
      and "valid_time (clock_respond e + 600 * 1000)" for signedUrl
  proof -
    from toISOString_valid[OF that(2)] obtain stamp
      where st: "toISOString (clock_respond e + 600 * 1000) = Some stamp" by blast
    with that(1) have "fst (download e (Some b)) =
        Inr \<lparr>status = 200, json = Success ''License and domain verified'' signedUrl 600 stamp file\<rparr>"
      by (simp add: run hc)
    with st show ?thesis by blast
  qed
  from calls ok show ?thesis by blast
qed

lemma sample_civil: "civil_from_days 20395 = (2025, 11, 3)"
  by code_simp

lemma sample_pads:
  "iso_year 2025 = ''2025''" "pad 2 11 = ''11''" "pad 2 3 = ''03''" "pad 2 7 = ''07''"
  "pad 2 40 = ''40''" "pad 2 0 = ''00''" "pad 3 250 = ''250''"
  by code_simp+

lemma sample_stamp:
  "toISOString (clock_respond (sample_env other) + 600 * 1000)
     = Some ''2025-11-03T07:40:00.250Z''"
  by (simp add: toISOString_def valid_time_def msPerDay_def sample_env_def sample_civil
      sample_pads)

lemma sample_license_accepted:
  "validateLicense (table (sample_env other)) (parseDate (sample_env other))
     (clock_validate (sample_env other))
     ''ABC-123-XYZ'' ''demo.yourtheme.com'' ''theme-a/demo.zip'' = Accepted"
  using sample_lookup[of other] sample_not_expired[of other] by (simp add: validateLicense_def)

text \<open>The sample request at 2025-11-03T07:30:00.250Z: the grant expires at 07:40:00.250Z.\<close>

theorem valid_request_issues_url_witness:
  "\<forall>other.
     validateFileName ''theme-a/demo.zip''
   \<and> validateLicense (table (sample_env other)) (parseDate (sample_env other))
        (clock_validate (sample_env other))
        ''ABC-123-XYZ'' ''demo.yourtheme.com'' ''theme-a/demo.zip'' = Accepted
   \<and> valid_time (clock_respond (sample_env other) + 600 * 1000)
   \<and> signer_calls (snd (download (sample_env other) (Some sample_body))) =
        [\<lparr>Bucket = Some ''downloads'', Key = ''theme-a/demo.zip'', expiresIn = 600\<rparr>]
   \<and> fst (download (sample_env other) (Some sample_body)) =
        Inr \<lparr>status = 200,
             json = Success ''License and domain verified''
                      ''https://r2.example/theme-a/demo.zip?X-Amz-Expires=600'' 600
                      ''2025-11-03T07:40:00.250Z'' ''theme-a/demo.zip''\<rparr>"
proof
  fix other
  let ?e = "sample_env other"
  have b: "body_license sample_body = Some ''ABC-123-XYZ''"
    "body_domain sample_body = Some ''demo.yourtheme.com''"
    "body_file sample_body = Some ''theme-a/demo.zip''"
    by (simp_all add: sample_body_def)
  have ne: "''ABC-123-XYZ'' \<noteq> []" "''demo.yourtheme.com'' \<noteq> []" by simp_all
  have vt: "valid_time (clock_respond ?e + 600 * 1000)"
    by (simp add: valid_time_def sample_env_def)
  have sg: "getSignedUrl ?e
       \<lparr>Bucket = R2_BUCKET ?e, Key = ''theme-a/demo.zip'', expiresIn = 600\<rparr>
     = Inr ''https://r2.example/theme-a/demo.zip?X-Amz-Expires=600''"
    by (simp add: sample_env_def sample_signer_def)
  note iso = sample_stamp[of other]
  have bk: "R2_BUCKET ?e = Some ''downloads''" by (simp add: sample_env_def)
  from valid_request_issues_url[OF b ne sample_file_ok sample_license_accepted[of other]]
    sg vt iso bk
  have "signer_calls (snd (download ?e (Some sample_body))) =
        [\<lparr>Bucket = Some ''downloads'', Key = ''theme-a/demo.zip'', expiresIn = 600\<rparr>]
   \<and> fst (download ?e (Some sample_body)) =
        Inr \<lparr>status = 200,
             json = Success ''License and domain verified''
                      ''https://r2.example/theme-a/demo.zip?X-Amz-Expires=600'' 600
                      ''2025-11-03T07:40:00.250Z'' ''theme-a/demo.zip''\<rparr>"
    by auto
  with sample_file_ok sample_license_accepted[of other] vt
  show "validateFileName ''theme-a/demo.zip''
   \<and> validateLicense (table ?e) (parseDate ?e) (clock_validate ?e)
        ''ABC-123-XYZ'' ''demo.yourtheme.com'' ''theme-a/demo.zip'' = Accepted
   \<and> valid_time (clock_respond ?e + 600 * 1000)
   \<and> signer_calls (snd (download ?e (Some sample_body))) =
        [\<lparr>Bucket = Some ''downloads'', Key = ''theme-a/demo.zip'', expiresIn = 600\<rparr>]
   \<and> fst (download ?e (Some sample_body)) =
        Inr \<lparr>status = 200,
             json = Success ''License and domain verified''
                      ''https://r2.example/theme-a/demo.zip?X-Amz-Expires=600'' 600
                      ''2025-11-03T07:40:00.250Z'' ''theme-a/demo.zip''\<rparr>"
    by blast
qed

text \<open>
  Claim C8. For a request that passes all validation, when the signing call fails, with
  whatever cause, the response is 500 with exactly the message
  \<open>Failed to generate download URL. Please try again later.\<close> (the cause does not
  occur in it), and the run holds one signer call: there is no retry.
\<close>

theorem signing_failure_is_generic_500:
  assumes "body_license b = Some license" and "body_domain b = Some domain"
    and "body_file b = Some file" and "license \<noteq> []" and "domain \<noteq> []"
    and "validateFileName file"
    and "validateLicense (table e) (parseDate e) (clock_validate e) license domain file = Accepted"
    and "getSignedUrl e \<lparr>Bucket = R2_BUCKET e, Key = file, expiresIn = 600\<rparr> = Inl cause"
  shows "fst (download e (Some b)) =
           Inr \<lparr>status = 500,
            json = Failure ''Failed to generate download URL. Please try again later.''\<rparr>
       \<and> signer_calls (snd (download e (Some b))) =
           [\<lparr>Bucket = R2_BUCKET e, Key = file, expiresIn = 600\<rparr>]"
proof -
  from assms(6) have ne: "file \<noteq> []" by (auto simp: validateFileName_iff)
  note run = download_present[OF assms(1,2,3,4,5) ne, of e]
  note hc = handle_checked_accepted[OF assms(6,7)]
  from assms(8) show ?thesis by (simp add: run hc)
qed

text \<open>The sample request against a signer that fails with a name-resolution error.\<close>

theorem signing_failure_is_generic_500_witness:
  "\<forall>other.
     getSignedUrl (sample_env other\<lparr>getSignedUrl := failing_signer\<rparr>)
       \<lparr>Bucket = Some ''downloads'', Key = ''theme-a/demo.zip'', expiresIn = 600\<rparr>
     = Inl ''getaddrinfo ENOTFOUND r2.example''
   \<and> fst (download (sample_env other\<lparr>getSignedUrl := failing_signer\<rparr>) (Some sample_body)) =
        Inr \<lparr>status = 500,
             json = Failure ''Failed to generate download URL. Please try again later.''\<rparr>
   \<and> signer_calls
        (snd (download (sample_env other\<lparr>getSignedUrl := failing_signer\<rparr>) (Some sample_body))) =
        [\<lparr>Bucket = Some ''downloads'', Key = ''theme-a/demo.zip'', expiresIn = 600\<rparr>]"
proof
  fix other
  let ?e = "sample_env other\<lparr>getSignedUrl := failing_signer\<rparr>"
  have b: "body_license sample_body = Some ''ABC-123-XYZ''"
    "body_domain sample_body = Some ''demo.yourtheme.com''"
    "body_file sample_body = Some ''theme-a/demo.zip''"
    by (simp_all add: sample_body_def)
  have ne: "''ABC-123-XYZ'' \<noteq> []" "''demo.yourtheme.com'' \<noteq> []" by simp_all
  have acc: "validateLicense (table ?e) (parseDate ?e) (clock_validate ?e)
     ''ABC-123-XYZ'' ''demo.yourtheme.com'' ''theme-a/demo.zip'' = Accepted"
    using sample_license_accepted[of other] by simp
  have bk: "R2_BUCKET ?e = Some ''downloads''" by (simp add: sample_env_def)
  have sg: "getSignedUrl ?e \<lparr>Bucket = R2_BUCKET ?e, Key = ''theme-a/demo.zip'', expiresIn = 600\<rparr>
     = Inl ''getaddrinfo ENOTFOUND r2.example''"
    by (simp add: failing_signer_def)
  from signing_failure_is_generic_500[OF b ne sample_file_ok acc sg] sg bk
  show "getSignedUrl ?e
       \<lparr>Bucket = Some ''downloads'', Key = ''theme-a/demo.zip'', expiresIn = 600\<rparr>
     = Inl ''getaddrinfo ENOTFOUND r2.example''
   \<and> fst (download ?e (Some sample_body)) =
        Inr \<lparr>status = 500,
             json = Failure ''Failed to generate download URL. Please try again later.''\<rparr>
   \<and> signer_calls (snd (download ?e (Some sample_body))) =
        [\<lparr>Bucket = Some ''downloads'', Key = ''theme-a/demo.zip'', expiresIn = 600\<rparr>]"
    by simp
qed

subsection \<open>The license lookup\<close>

text \<open>
  A key that is neither stored nor a property name of \<open>Object.prototype\<close> is not found;
  so is a stored key in another letter case.
\<close>

lemma unknown_key_not_found:
  "tbl license = None \<Longrightarrow> license \<notin> set object_prototype_names \<Longrightarrow>
   validateLicense tbl parse now license domain file = Rejected ''License not found''"
  by (simp add: validateLicense_def get_property_def)

lemma lower_case_key_not_found:
  "validateLicense LICENSES parse now ''abc-123-xyz'' domain file = Rejected ''License not found''"
  by (rule unknown_key_not_found) (simp_all add: LICENSES_def object_prototype_names_def)

text \<open>
  Claim C5 says that every key not equal to a stored key is answered
  \<open>License not found\<close>. The key \<open>constructor\<close> is not stored, and \<open>LICENSES[license]\<close>
  finds the member of that name inherited from \<open>Object.prototype\<close>: the Validator
  answers \<open>License inactive\<close> instead, whatever the clock, the domain and the file.
\<close>

theorem inherited_key_reported_inactive:
  "LICENSES ''constructor'' = None
   \<and> validateLicense LICENSES parse now ''constructor'' domain file = Rejected ''License inactive''
   \<and> validateLicense LICENSES parse now ''constructor'' domain file \<noteq> Rejected ''License not found''"
  by (simp add: validateLicense_def get_property_def LICENSES_def object_prototype_names_def)

text \<open>The same through the handler: a 403 with \<open>License inactive\<close>.\<close>

theorem inherited_key_reported_inactive_witness:
  "\<forall>other.
     fst (download (sample_env other)
            (Some \<lparr>body_license = Some ''constructor'', body_domain = Some ''localhost'',
                   body_file = Some ''a.zip''\<rparr>))
       = Inr \<lparr>status = 403, json = Failure ''License inactive''\<rparr>"
proof
  fix other
  let ?e = "sample_env other"
  let ?b = "\<lparr>body_license = Some ''constructor'', body_domain = Some ''localhost'',
           body_file = Some ''a.zip''\<rparr>"
  have fn: "validateFileName ''a.zip''" by code_simp
  from inherited_key_reported_inactive[of "Date_parse other" "clock_validate ?e"
      "''localhost''" "''a.zip''"]
  have "validateLicense (table ?e) (parseDate ?e) (clock_validate ?e)
      ''constructor'' ''localhost'' ''a.zip'' = Rejected ''License inactive''"
    by (simp add: sample_env_def)
  from handle_checked_rejected[OF fn this]
    download_present[of ?b "''constructor''" "''localhost''" "''a.zip''" ?e]
  show "fst (download ?e (Some ?b)) = Inr \<lparr>status = 403, json = Failure ''License inactive''\<rparr>"
    by simp
qed

subsection \<open>The rate limiter\<close>

text \<open>
  The limiter as the source configures it: the first request of an identity opens a
  window, a request within the window is counted and rejected from the 31st on, and a
  request after the window opens a new one.
\<close>

lemma limiter_first:
  "keyGenerator keygen c = Inr key \<Longrightarrow> store key = None \<Longrightarrow>
   limiter keygen e c store =
     ((Next, []), store(key \<mapsto> \<lparr>windowStart = clock_limiter e, hits = 1\<rparr>))"
  by (simp add: limiter_def count_hit_def max_requests_def Let_def)

lemma limiter_within_window:
  "keyGenerator keygen c = Inr key \<Longrightarrow>
   store key = Some \<lparr>windowStart = w, hits = n\<rparr> \<Longrightarrow>
   clock_limiter e - w \<le> windowMs \<Longrightarrow>
   limiter keygen e c store =
     (if n \<ge> max_requests
      then (Responded \<lparr>status = 429,
                        json = Failure ''Too many requests. Please try again later.''\<rparr>,
            [Logged Warn ''Rate limit exceeded''])
      else (Next, []),
      store(key \<mapsto> \<lparr>windowStart = w, hits = Suc n\<rparr>))"
  by (simp add: limiter_def count_hit_def Let_def)

lemma limiter_after_window:
  "keyGenerator keygen c = Inr key \<Longrightarrow>
   store key = Some \<lparr>windowStart = w, hits = n\<rparr> \<Longrightarrow>
   clock_limiter e - w > windowMs \<Longrightarrow>
   limiter keygen e c store =
     ((Next, []), store(key \<mapsto> \<lparr>windowStart = clock_limiter e, hits = 1\<rparr>))"
  by (simp add: limiter_def count_hit_def max_requests_def Let_def)

lemma limiter_unparsed_body:
  "req_body c = None \<Longrightarrow> limiter keygen e c store = ((Threw TypeError, []), store)"
  by (simp add: limiter_def keyGenerator_def)

lemma download_handler_run:
  "run_chain post_download_route e c store =
     ((answer_of (fst (download e (req_body c))), snd (download e (req_body c))), store)"
  by (auto simp: post_download_route_def download_handler_def answer_of_def
      split: prod.splits sum.splits)

lemma limited_route_first:
  assumes "keyGenerator keygen c = Inr key" and "store key = None"
  shows "limited_download keygen e c store =
     ((answer_of (fst (download e (req_body c))), snd (download e (req_body c))),
      store(key \<mapsto> \<lparr>windowStart = clock_limiter e, hits = 1\<rparr>))"
  using limiter_first[where keygen=keygen and c=c and key=key and store=store and e=e] assms
  by (simp add: limited_download_def download_handler_run)

lemma limited_route_within_window:
  assumes "keyGenerator keygen c = Inr key"
    and "store key = Some \<lparr>windowStart = w, hits = n\<rparr>"
    and "clock_limiter e - w \<le> windowMs"
  shows "limited_download keygen e c store =
     ((if n \<ge> max_requests
       then (Responded \<lparr>status = 429,
                         json = Failure ''Too many requests. Please try again later.''\<rparr>,
             [Logged Warn ''Rate limit exceeded''])
       else (answer_of (fst (download e (req_body c))), snd (download e (req_body c)))),
      store(key \<mapsto> \<lparr>windowStart = w, hits = Suc n\<rparr>))"
  using limiter_within_window[where keygen=keygen and c=c and key=key and store=store
      and w=w and n=n and e=e] assms
  by (simp add: limited_download_def download_handler_run)

lemma limited_serve_within_window:
  assumes "clock_limiter e - w \<le> windowMs"
  shows "\<forall>c \<in> set cs. keyGenerator keygen c = Inr key \<Longrightarrow>
     store key = Some \<lparr>windowStart = w, hits = h\<rparr> \<Longrightarrow>
     fst (serve (limited_download keygen) (map (Pair e) cs) store) =
       map (\<lambda>(i, c). if i \<ge> max_requests
                 then Responded \<lparr>status = 429,
                        json = Failure ''Too many requests. Please try again later.''\<rparr>
                 else answer_of (fst (download e (req_body c)))) (enumerate h cs)"
proof (induction cs arbitrary: store h)
  case Nil
  show ?case by simp
next
  case (Cons c cs)
  let ?store' = "store(key \<mapsto> \<lparr>windowStart = w, hits = Suc h\<rparr>)"
  have st: "?store' key = Some \<lparr>windowStart = w, hits = Suc h\<rparr>" by simp
  have k: "keyGenerator keygen c = Inr key" and ks: "\<forall>c \<in> set cs. keyGenerator keygen c = Inr key"
    using Cons.prems(1) by simp_all
  have step: "limited_download keygen e c store =
     ((if h \<ge> max_requests
       then (Responded \<lparr>status = 429,
                         json = Failure ''Too many requests. Please try again later.''\<rparr>,
             [Logged Warn ''Rate limit exceeded''])
       else (answer_of (fst (download e (req_body c))), snd (download e (req_body c)))),
      ?store')"
    using limited_route_within_window[where keygen=keygen and c=c and key=key
        and store=store and w=w and n=h and e=e] k Cons.prems(2) assms by blast
  have ih: "fst (serve (limited_download keygen) (map (Pair e) cs) ?store') =
       map (\<lambda>(i, c). if i \<ge> max_requests
                 then Responded \<lparr>status = 429,
                        json = Failure ''Too many requests. Please try again later.''\<rparr>
                 else answer_of (fst (download e (req_body c)))) (enumerate (Suc h) cs)"
    using Cons.IH[where store="?store'" and h="Suc h"] ks st by blast
  show ?case using ih step by (auto split: prod.splits)
qed

lemma limited_serve_fresh:
  assumes "\<forall>c \<in> set cs. keyGenerator keygen c = Inr key" and "store key = None"
  shows "fst (serve (limited_download keygen) (map (Pair e) cs) store) =
       map (\<lambda>(i, c). if i \<ge> max_requests
                 then Responded \<lparr>status = 429,
                        json = Failure ''Too many requests. Please try again later.''\<rparr>
                 else answer_of (fst (download e (req_body c)))) (enumerate 0 cs)"
proof (cases cs)
  case Nil
  then show ?thesis by simp
next
  case (Cons c cs')
  let ?store' = "store(key \<mapsto> \<lparr>windowStart = clock_limiter e, hits = 1\<rparr>)"
  have k: "keyGenerator keygen c = Inr key" and ks: "\<forall>c \<in> set cs'. keyGenerator keygen c = Inr key"
    using assms(1) Cons by simp_all
  have st: "?store' key = Some \<lparr>windowStart = clock_limiter e, hits = 1\<rparr>" by simp
  have w: "clock_limiter e - clock_limiter e \<le> windowMs" by (simp add: windowMs_def)
  have step: "limited_download keygen e c store =
     ((answer_of (fst (download e (req_body c))), snd (download e (req_body c))), ?store')"
    using limited_route_first[where keygen=keygen and c=c and key=key and store=store and e=e]
      k assms(2) by blast
  have rest: "fst (serve (limited_download keygen) (map (Pair e) cs') ?store') =
       map (\<lambda>(i, c). if i \<ge> max_requests
                 then Responded \<lparr>status = 429,
                        json = Failure ''Too many requests. Please try again later.''\<rparr>
                 else answer_of (fst (download e (req_body c)))) (enumerate 1 cs')"
    using limited_serve_within_window[where e=e and w="clock_limiter e" and cs=cs'
        and keygen=keygen and key=key and store="?store'" and h=1] w ks st by blast
  show ?thesis using rest step Cons by (auto simp: max_requests_def split: prod.splits)
qed

lemma probe_key: "keyGenerator keygen (probe_request i) = Inr (StringKey ''NO-SUCH-KEY'')"
  by (simp add: keyGenerator_def probe_request_def)

lemma limiter_rejects_31st:
  "fst (serve (limited_download keygen) (probes e 31) Map.empty) ! 30
     = Responded \<lparr>status = 429, json = Failure ''Too many requests. Please try again later.''\<rparr>"
proof -
  let ?cs = "map probe_request [0..<31]"
  have p: "probes e 31 = map (Pair e) ?cs" by (simp add: probes_def comp_def del: upt_Suc)
  have ks: "\<forall>c \<in> set ?cs. keyGenerator keygen c = Inr (StringKey ''NO-SUCH-KEY'')"
    using probe_key by (auto simp del: upt_Suc)
  have len: "30 < length ?cs" by simp
  have "enumerate 0 ?cs ! 30 = (30, ?cs ! 30)"
    using nth_enumerate_eq[OF len, of 0] by simp
  then show ?thesis
    unfolding p limited_serve_fresh[where cs="?cs" and keygen=keygen
        and key="StringKey ''NO-SUCH-KEY''" and store=Map.empty and e=e, OF ks refl]
    by (simp add: max_requests_def del: upt_Suc)
qed

subsection \<open>The route and the rate limiter\<close>

lemma probe_not_found:
  "download (sample_env other) (req_body (probe_request i)) =
     (Inr \<lparr>status = 403, json = Failure ''License not found''\<rparr>,
      [Logged Info ''Download request received'', FileNameChecked ''a.zip'',
       Validated ''NO-SUCH-KEY'' ''localhost'' ''a.zip'',
       Logged Warn ''License validation failed''])"
proof -
  let ?e = "sample_env other"
  let ?b = "\<lparr>body_license = Some ''NO-SUCH-KEY'', body_domain = Some ''localhost'',
             body_file = Some ''a.zip''\<rparr>"
  have fn: "validateFileName ''a.zip''" by code_simp
  have "validateLicense (table ?e) (parseDate ?e) (clock_validate ?e)
      ''NO-SUCH-KEY'' ''localhost'' ''a.zip'' = Rejected ''License not found''"
    by (rule unknown_key_not_found)
       (simp_all add: sample_env_def LICENSES_def object_prototype_names_def)
  from handle_checked_rejected[OF fn this]
    download_present[of ?b "''NO-SUCH-KEY''" "''localhost''" "''a.zip''" ?e]
  show ?thesis by (simp add: probe_request_def)
qed

text \<open>
  Claim C1 says that every request to \<open>POST /download\<close> is metered by the rate limiter
  before anything else, so that the 31st request of an identity within a window gets
  429 and does not reach the Validator. The route of the source holds the handler alone:
  whatever the requests and the limiter's store, each request is answered by the
  handler and the store is left as it was.
\<close>

theorem post_download_skips_limiter:
  "serve post_download reqs store =
     (map (\<lambda>(e, c). answer_of (fst (download e (req_body c)))) reqs, store)"
  by (induction reqs arbitrary: store)
     (auto simp: post_download_def download_handler_run split: prod.splits)

text \<open>
  31 requests of one client with the same unknown license key at the same instant: the
  31st is answered 403 by the Validator and the store is still empty, where the route
  with the limiter in front answers 429.
\<close>

theorem post_download_skips_limiter_witness:
  "\<forall>other keygen.
     keyGenerator keygen (probe_request 30) = Inr (StringKey ''NO-SUCH-KEY'')
   \<and> fst (serve post_download (probes (sample_env other) 31) Map.empty) ! 30
       = Responded \<lparr>status = 403, json = Failure ''License not found''\<rparr>
   \<and> snd (serve post_download (probes (sample_env other) 31) Map.empty) = Map.empty
   \<and> fst (serve (limited_download keygen) (probes (sample_env other) 31) Map.empty) ! 30
       = Responded \<lparr>status = 429, json = Failure ''Too many requests. Please try again later.''\<rparr>"
proof (intro allI)
  fix other keygen
  let ?reqs = "probes (sample_env other) 31"
  note run = post_download_skips_limiter[of ?reqs Map.empty]
  have a: "fst (serve post_download ?reqs Map.empty) ! 30
       = Responded \<lparr>status = 403, json = Failure ''License not found''\<rparr>"
    unfolding run by (simp add: probes_def probe_not_found answer_of_def del: upt_Suc)
  have b: "snd (serve post_download ?reqs Map.empty) = Map.empty"
    unfolding run by simp
  from probe_key a b limiter_rejects_31st
  show "keyGenerator keygen (probe_request 30) = Inr (StringKey ''NO-SUCH-KEY'')
   \<and> fst (serve post_download ?reqs Map.empty) ! 30
       = Responded \<lparr>status = 403, json = Failure ''License not found''\<rparr>
   \<and> snd (serve post_download ?reqs Map.empty) = Map.empty
   \<and> fst (serve (limited_download keygen) ?reqs Map.empty) ! 30
       = Responded \<lparr>status = 429, json = Failure ''Too many requests. Please try again later.''\<rparr>"
    by blast
qed

end
